theory Spec2Isabelle
  imports Main "HOL-Library.Word" "HOL-Library.AList"
begin

section \<open>Errors\<close>

text \<open>
  Go errors and panics as values. \<open>NoCursorErr\<close> is the package variable of
  checkpoint.go; \<open>EOF\<close> is \<open>io.EOF\<close>; \<open>NotExist\<close> is the error for which \<open>os.IsNotExist\<close> holds;
  \<open>Failure\<close> is an error raised by the code or by a collaborator, named by its message;
  \<open>Wrapped\<close> is \<open>fmt.Errorf("msg: %w", err)\<close>; \<open>Panic\<close> is a run-time panic.
\<close>

datatype error =
    NoCursorErr
  | EOF
  | NotExist
  | Failure string
  | Wrapped string error
  | Panic string

fun IsNotExist :: "error \<Rightarrow> bool" where
  "IsNotExist NotExist = True"
| "IsNotExist _ = False"

section \<open>checkpoint.go: the file-backed checkpointer\<close>

text \<open>
  The file system. At a path there is nothing, or a regular file with its contents,
  or an entry on which reads and writes fail (a directory, a file without
  permission). \<open>creatable\<close> says whether a file can be created at a path where
  there is nothing: its directory exists and can be written.
\<close>

datatype file_entry = Regular string | Denied

record filesystem =
  entries :: "string \<rightharpoonup> file_entry"
  creatable :: "string \<Rightarrow> bool"

definition WriteFile :: "filesystem \<Rightarrow> string \<Rightarrow> string \<Rightarrow> error option \<times> filesystem" where
  "WriteFile fs name dat =
     (case entries fs name of
        Some Denied \<Rightarrow> (Some (Failure ''permission denied''), fs)
      | Some (Regular old) \<Rightarrow> (None, fs\<lparr>entries := (entries fs)(name \<mapsto> Regular dat)\<rparr>)
      | None \<Rightarrow>
          if creatable fs name
          then (None, fs\<lparr>entries := (entries fs)(name \<mapsto> Regular dat)\<rparr>)
          else (Some NotExist, fs))"

definition ReadFile :: "filesystem \<Rightarrow> string \<Rightarrow> error + string" where
  "ReadFile fs name =
     (case entries fs name of
        None \<Rightarrow> Inl NotExist
      | Some Denied \<Rightarrow> Inl (Failure ''permission denied'')
      | Some (Regular dat) \<Rightarrow> Inr dat)"

record localFileCheckpointer =
  filename :: string

definition newFileCheckpointer :: "string \<Rightarrow> localFileCheckpointer" where
  "newFileCheckpointer name = \<lparr>filename = name\<rparr>"

definition file_Save :: "localFileCheckpointer \<Rightarrow> string \<Rightarrow> filesystem \<Rightarrow> error option \<times> filesystem" where
  "file_Save c cursor fs = WriteFile fs (filename c) cursor"

definition file_Load :: "localFileCheckpointer \<Rightarrow> filesystem \<Rightarrow> error + string" where
  "file_Load c fs =
     (case ReadFile fs (filename c) of
        Inl err \<Rightarrow> if IsNotExist err then Inl NoCursorErr else Inl err
      | Inr dat \<Rightarrow> Inr dat)"

section \<open>checkpoint.go: the Kafka-backed checkpointer\<close>

subsection \<open>The checkpoint record and its JSON encoding\<close>

text \<open>
  \<open>json.Marshal(cs{Cursor: cursor})\<close>: the object with the single field "cursor";
  the call does not fail on this struct.
  The string is written as encoding/json writes it: between double quotes, with the
  double quote and the backslash escaped, newline, carriage return and tab in their
  short forms, the other control characters and the HTML characters less-than,
  greater-than and ampersand as \<open>\u00XX\<close>. Backspace and form feed are among the
  control characters written as \<open>\u0008\<close> and \<open>\u000c\<close>: the short forms \<open>\b\<close> and
  \<open>\f\<close> came with Go 1.22, after these sources. From 0x80 on the encoder reads
  UTF-8: a byte that starts no valid sequence is written as \<open>\ufffd\<close>, the line and
  paragraph separators U+2028 and U+2029 as \<open>\u2028\<close> and \<open>\u2029\<close>, and every other
  valid sequence is copied.
\<close>

definition dquote :: char where
  "dquote = CHR 0x22"

definition backslash :: char where
  "backslash = CHR 0x5C"

definition hex :: "nat \<Rightarrow> char" where
  "hex n = ''0123456789abcdef'' ! (n mod 16)"

definition json_char :: "char \<Rightarrow> string" where
  "json_char ch =
     (if ch = dquote then [backslash, dquote]
      else if ch = backslash then [backslash, backslash]
      else if ch = CHR 0x0A then [backslash, CHR ''n'']
      else if ch = CHR 0x0D then [backslash, CHR ''r'']
      else if ch = CHR 0x09 then [backslash, CHR ''t'']
      else if of_char ch < (0x20 :: nat) \<or> ch = CHR ''<'' \<or> ch = CHR ''>'' \<or> ch = CHR ''&''
        then [backslash, CHR ''u'', CHR ''0'', CHR ''0'',
              hex (of_char ch div 16), hex (of_char ch)]
      else [ch])"

definition between :: "char \<Rightarrow> nat \<Rightarrow> nat \<Rightarrow> bool" where
  "between ch lo hi = (lo \<le> of_char ch \<and> of_char ch \<le> hi)"

text \<open>
  The number of bytes of the UTF-8 sequence of two to four bytes at the head of
  the string, \<open>0\<close> when there is no valid one (\<open>utf8.DecodeRuneInString\<close> then
  returns \<open>RuneError\<close> with the width 1): overlong forms, surrogates, code points
  beyond U+10FFFF and cut sequences are not valid.
\<close>

definition rune_size :: "string \<Rightarrow> nat" where
  "rune_size s =
     (case s of
        b0 # b1 # rest \<Rightarrow>
          if between b0 0xC2 0xDF then (if between b1 0x80 0xBF then 2 else 0)
          else if between b0 0xE0 0xEF then
            (case rest of
               b2 # bs \<Rightarrow>
                 if between b1 (if b0 = CHR 0xE0 then 0xA0 else 0x80)
                               (if b0 = CHR 0xED then 0x9F else 0xBF) \<and>
                    between b2 0x80 0xBF
                 then 3 else 0
             | [] \<Rightarrow> 0)
          else if between b0 0xF0 0xF4 then
            (case rest of
               b2 # b3 # bs \<Rightarrow>
                 if between b1 (if b0 = CHR 0xF0 then 0x90 else 0x80)
                               (if b0 = CHR 0xF4 then 0x8F else 0xBF) \<and>
                    between b2 0x80 0xBF \<and> between b3 0x80 0xBF
                 then 4 else 0
             | _ \<Rightarrow> 0)
          else 0
      | _ \<Rightarrow> 0)"

function json_bytes :: "string \<Rightarrow> string" where
  "json_bytes [] = []"
| "json_bytes (b # bs) =
     (if of_char b < (0x80 :: nat) then json_char b @ json_bytes bs
      else if rune_size (b # bs) = 0
        then backslash # ''ufffd'' @ json_bytes bs
      else if take 3 (b # bs) = [CHR 0xE2, CHR 0x80, CHR 0xA8]
        then backslash # ''u2028'' @ json_bytes (drop 2 bs)
      else if take 3 (b # bs) = [CHR 0xE2, CHR 0x80, CHR 0xA9]
        then backslash # ''u2029'' @ json_bytes (drop 2 bs)
      else take (rune_size (b # bs)) (b # bs)
             @ json_bytes (drop (rune_size (b # bs) - 1) bs))"
  by pat_completeness auto
termination
  by (relation "measure length") auto

declare json_bytes.simps(2) [simp del]

definition json_string :: "string \<Rightarrow> string" where
  "json_string s = dquote # json_bytes s @ [dquote]"

record cs =
  Cursor :: string

definition Marshal_cs :: "cs \<Rightarrow> string" where
  "Marshal_cs v =
     CHR ''{'' # json_string ''cursor'' @ CHR '':'' # json_string (Cursor v) @ [CHR ''}'']"

subsection \<open>The broker, as the checkpointer's calls see it\<close>

text \<open>
  A partition is a log whose first retained offset is \<open>low\<close>; the slot at index \<open>j\<close>
  has offset \<open>low + j\<close> and the high watermark is \<open>low + length slots\<close>. A slot
  holds a message, or nothing a consumer is handed (\<open>Poll\<close> then returns no event
  within its timeout). \<open>any_partition\<close> is the partition that the producer picks
  for a message sent to \<open>PartitionAny\<close>. \<open>failing\<close> lists the client calls that
  return an error; \<open>created\<close> keeps the topic specifications passed to
  \<open>CreateTopics\<close>.
\<close>

datatype slot = Held string | Vacant

record partition_log =
  low :: nat
  slots :: "slot list"

datatype call =
    NewConsumer
  | GetMetadata
  | NewAdminClientFromConsumer
  | CreateTopics
  | QueryWatermarkOffsets
  | Assign int
  | Poll int
  | Produce

record TopicSpecification =
  Topic :: string
  NumPartitions :: int
  ReplicationFactor :: int

record kafka =
  brokers :: nat
  topics :: "string \<rightharpoonup> partition_log list"
  any_partition :: nat
  failing :: "call list"
  created :: "TopicSpecification list"

definition fails :: "kafka \<Rightarrow> call \<Rightarrow> bool" where
  "fails k c = (c \<in> set (failing k))"

record kafkaCheckpointer =
  topic :: string
  partition :: "32 word"

definition newKafkaCheckpointer :: "string \<Rightarrow> 32 word \<Rightarrow> kafkaCheckpointer" where
  "newKafkaCheckpointer cursorTopic cursorPartition =
     \<lparr>topic = cursorTopic, partition = cursorPartition\<rparr>"

text \<open>The partitions of a topic in the metadata: none for a topic the broker does not have.\<close>

definition Partitions :: "kafka \<Rightarrow> string \<Rightarrow> partition_log list" where
  "Partitions k t = (case topics k t of None \<Rightarrow> [] | Some ps \<Rightarrow> ps)"

definition lookup_partition :: "kafka \<Rightarrow> string \<Rightarrow> int \<Rightarrow> partition_log option" where
  "lookup_partition k t p =
     (if 0 \<le> p \<and> p < int (length (Partitions k t)) then Some (Partitions k t ! nat p) else None)"

definition PartitionAny :: int where
  "PartitionAny = -1"

text \<open>
  \<open>producer.Produce(msg, nil)\<close>: the message goes to the partition it names, or for
  \<open>PartitionAny\<close> to the partition the producer picks, and is appended there; a
  partition that the topic does not have is an error.
\<close>

definition Produce_to :: "kafka \<Rightarrow> string \<Rightarrow> int \<Rightarrow> string \<Rightarrow> error option \<times> kafka" where
  "Produce_to k t p v =
     (if fails k Produce then (Some (Failure ''produce''), k)
      else
        let q = (if p = PartitionAny then int (any_partition k) else p)
        in case lookup_partition k t q of
          None \<Rightarrow> (Some (Failure ''unknown partition''), k)
        | Some lg \<Rightarrow>
            (None, k\<lparr>topics := (topics k)(t \<mapsto>
                       (Partitions k t)[nat q := lg\<lparr>slots := slots lg @ [Held v]\<rparr>])\<rparr>))"

definition kafka_Save :: "kafkaCheckpointer \<Rightarrow> string \<Rightarrow> kafka \<Rightarrow> error option \<times> kafka" where
  "kafka_Save c cursor k =
     Produce_to k (topic c) (sint (partition c)) (Marshal_cs \<lparr>Cursor = cursor\<rparr>)"

subsection \<open>createKafkaCursorTopic\<close>

definition createKafkaCursorTopic :: "kafka \<Rightarrow> string \<Rightarrow> int \<Rightarrow> error option \<times> kafka" where
  "createKafkaCursorTopic k cursorTopic maxAvailableBrokers =
     (if fails k NewAdminClientFromConsumer
        then (Some (Wrapped ''creating admin client'' (Failure ''admin client'')), k)
      else
        let numParts = (10 :: int);
            replicationFactor = (if 3 > maxAvailableBrokers then maxAvailableBrokers else 3)
        in if fails k CreateTopics
             then (Some (Wrapped ''creating topic'' (Failure ''create topics'')), k)
           else (None,
             k\<lparr>topics := (topics k)(cursorTopic \<mapsto>
                   replicate (nat numParts) \<lparr>low = 0, slots = []\<rparr>),
               created := created k @
                 [\<lparr>Topic = cursorTopic, NumPartitions = numParts,
                   ReplicationFactor = replicationFactor\<rparr>]\<rparr>))"

subsection \<open>Load\<close>

datatype kafka_Event = kafka_Error error | kafka_Message string | no_event

definition Poll_at :: "kafka \<Rightarrow> string \<Rightarrow> int \<Rightarrow> int \<Rightarrow> kafka_Event" where
  "Poll_at k t p i =
     (if fails k (Poll i) then kafka_Error (Failure ''poll'')
      else case lookup_partition k t p of
        None \<Rightarrow> no_event
      | Some lg \<Rightarrow>
          if int (low lg) \<le> i \<and> i < int (low lg) + int (length (slots lg))
          then (case slots lg ! nat (i - int (low lg)) of
                  Held v \<Rightarrow> kafka_Message v
                | Vacant \<Rightarrow> no_event)
          else no_event)"

definition QueryWatermarks :: "kafka \<Rightarrow> string \<Rightarrow> int \<Rightarrow> error + (int \<times> int)" where
  "QueryWatermarks k t p =
     (if fails k QueryWatermarkOffsets then Inl (Failure ''watermarks'')
      else case lookup_partition k t p of
        None \<Rightarrow> Inl (Failure ''unknown partition'')
      | Some lg \<Rightarrow> Inr (int (low lg), int (low lg) + int (length (slots lg))))"

text \<open>
  The loop \<open>for i := high - 1; i >= low; i--\<close>. Offsets are int64 in the source; the
  watermarks of a log are non-negative, so \<open>i\<close> stays between \<open>-1\<close> and \<open>high\<close> and
  the arithmetic is that of the integers.
\<close>

function scan :: "kafka \<Rightarrow> kafkaCheckpointer \<Rightarrow> int \<Rightarrow> int \<Rightarrow> error + string" where
  "scan k c i lo =
     (if i \<ge> lo then
        (if fails k (Assign i) then Inl (Failure ''assign'')
         else case Poll_at k (topic c) (sint (partition c)) i of
           kafka_Error e \<Rightarrow> Inl e
         | kafka_Message v \<Rightarrow> Inr v
         | no_event \<Rightarrow> scan k c (i - 1) lo)
      else Inl NoCursorErr)"
  by pat_completeness auto
termination
  by (relation "measure (\<lambda>(k, c, i, lo). nat (i - lo + 1))") auto

declare scan.simps [simp del]

definition kafka_Load :: "kafkaCheckpointer \<Rightarrow> kafka \<Rightarrow> (error + string) \<times> kafka" where
  "kafka_Load c k =
     (if fails k NewConsumer
        then (Inl (Wrapped ''creating consumer'' (Failure ''consumer'')), k)
      else if fails k GetMetadata
        then (Inl (Wrapped ''getting metadata'' (Failure ''metadata'')), k)
      else
        let parts = Partitions k (topic c);
            (err, k') =
              (if length parts = 0
                 then createKafkaCursorTopic k (topic c) (int (brokers k))
               else if int (length parts) - 1 < sint (partition c)
                 then (Some (Failure
                   ''requested cursor partition does not exist in cursor topic''), k)
               else (None, k))
        in case err of
          Some e \<Rightarrow> (Inl e, k')
        | None \<Rightarrow>
            (case QueryWatermarks k' (topic c) (sint (partition c)) of
               Inl e \<Rightarrow> (Inl (Wrapped ''getting low/high'' e), k')
             | Inr (lo, hi) \<Rightarrow> (scan k' c (hi - 1) lo, k')))"

section \<open>The decoded block, as the adapters read it\<close>

text \<open>
  The types of the \<open>pbcodec\<close> package, with the fields the code reads. A pointer the
  code dereferences is an \<open>option\<close>: \<open>None\<close> is the nil pointer. \<open>TransactionTraces\<close>
  is the value of \<open>blk.TransactionTraces()\<close>. The methods \<open>act.Account()\<close> and
  \<open>act.Name()\<close> read the account and the name of \<open>act.Action\<close>;
  \<open>auth.Authorization()\<close> is the actor and the permission joined by \<open>@\<close>;
  \<open>trx.DBOpsForAction(i)\<close> is the list of the row mutations of the transaction whose
  action index is \<open>i\<close>.
\<close>

record PermissionLevel =
  Actor :: string
  Permission :: string

definition Authorization_string :: "PermissionLevel \<Rightarrow> string" where
  "Authorization_string auth = Actor auth @ ''@'' @ Permission auth"

record Action =
  action_Account :: string
  action_Name :: string
  action_Authorization :: "PermissionLevel list"
  action_JsonData :: string

record ActionReceipt =
  receipt_GlobalSequence :: "64 word"

record ActionTrace =
  trace_Receiver :: string
  trace_Receipt :: "ActionReceipt option"
  trace_Action :: "Action option"
  ExecutionIndex :: "32 word"
  FilteringMatched :: bool

record DBOp =
  ActionIndex :: "32 word"
  TableName :: string
  Scope :: string
  OldData :: string
  NewData :: string

datatype TransactionStatus =
    TRANSACTIONSTATUS_NONE
  | TRANSACTIONSTATUS_EXECUTED
  | TRANSACTIONSTATUS_SOFTFAIL
  | TRANSACTIONSTATUS_HARDFAIL
  | TRANSACTIONSTATUS_DELAYED
  | TRANSACTIONSTATUS_EXPIRED
  | TRANSACTIONSTATUS_UNKNOWN

fun Status_String :: "TransactionStatus \<Rightarrow> string" where
  "Status_String TRANSACTIONSTATUS_NONE = ''TRANSACTIONSTATUS_NONE''"
| "Status_String TRANSACTIONSTATUS_EXECUTED = ''TRANSACTIONSTATUS_EXECUTED''"
| "Status_String TRANSACTIONSTATUS_SOFTFAIL = ''TRANSACTIONSTATUS_SOFTFAIL''"
| "Status_String TRANSACTIONSTATUS_HARDFAIL = ''TRANSACTIONSTATUS_HARDFAIL''"
| "Status_String TRANSACTIONSTATUS_DELAYED = ''TRANSACTIONSTATUS_DELAYED''"
| "Status_String TRANSACTIONSTATUS_EXPIRED = ''TRANSACTIONSTATUS_EXPIRED''"
| "Status_String TRANSACTIONSTATUS_UNKNOWN = ''TRANSACTIONSTATUS_UNKNOWN''"

record TransactionReceiptHeader =
  header_Status :: TransactionStatus

record TransactionTrace =
  trx_Id :: string
  trx_Receipt :: "TransactionReceiptHeader option"
  ActionTraces :: "ActionTrace list"
  DbOps :: "DBOp list"

definition DBOpsForAction :: "TransactionTrace \<Rightarrow> 32 word \<Rightarrow> DBOp list" where
  "DBOpsForAction trx idx = filter (\<lambda>op. ActionIndex op = idx) (DbOps trx)"

text \<open>
  \<open>Timestamp\<close> is the block's time as \<open>blk.MustTime()\<close> reads it, in nanoseconds;
  \<open>None\<close> is a timestamp that cannot be converted, on which \<open>MustTime\<close> panics.
\<close>

record Block =
  Id :: string
  Number :: "32 word"
  Timestamp :: "int option"
  TransactionTraces :: "TransactionTrace list"

section \<open>sanitizeStep, sanitizeStatus and hashString\<close>

definition TrimPrefix :: "string \<Rightarrow> string \<Rightarrow> string" where
  "TrimPrefix s pre = (if take (length pre) s = pre then drop (length pre) s else s)"

text \<open>
  \<open>strings.Title\<close> on ASCII text: a letter that follows a separator (and the first
  one) is mapped to upper case. In ASCII the letters, the digits and the underscore
  are no separators and every other character is one. The strings the code passes
  are the names of protobuf enum values (\<open>msg.Step.String()\<close> and
  \<open>trx.Receipt.Status.String()\<close>), which are ASCII; on other text \<open>strings.Title\<close>
  works on Unicode code points, which this function does not follow: it copies
  the bytes from 0x80 on and lets them separate nothing.
\<close>

definition isSeparator :: "char \<Rightarrow> bool" where
  "isSeparator ch =
     (let n = (of_char ch :: nat) in
      if n \<le> 0x7F then
        \<not> ((0x30 \<le> n \<and> n \<le> 0x39) \<or> (0x61 \<le> n \<and> n \<le> 0x7A)
           \<or> (0x41 \<le> n \<and> n \<le> 0x5A) \<or> n = 0x5F)
      else False)"

definition ToTitle :: "char \<Rightarrow> char" where
  "ToTitle ch =
     (let n = (of_char ch :: nat) in
      if 0x61 \<le> n \<and> n \<le> 0x7A then char_of (n - 0x20) else ch)"

fun Title_from :: "char \<Rightarrow> string \<Rightarrow> string" where
  "Title_from prev [] = []"
| "Title_from prev (r # rs) =
     (if isSeparator prev then ToTitle r else r) # Title_from r rs"

definition Title :: "string \<Rightarrow> string" where
  "Title s = Title_from (CHR '' '') s"

definition sanitizeStep :: "string \<Rightarrow> string" where
  "sanitizeStep step = Title (TrimPrefix step ''STEP_'')"

definition sanitizeStatus :: "string \<Rightarrow> string" where
  "sanitizeStatus status = Title (TrimPrefix status ''TRANSACTIONSTATUS_'')"

text \<open>
  \<open>hashString\<close>: the base64 text of the SHA-256 digest of the data. The functions
  of Go's standard library are taken as they come: the digest, the base64 encoder,
  \<open>Time.Format\<close> with the layout of the \<open>ce_time\<close> header, and the validity check
  that \<open>json.Marshal\<close> applies to a \<open>json.RawMessage\<close>.
\<close>

record library =
  sha256_Sum :: "string \<Rightarrow> string"
  base64_EncodeToString :: "string \<Rightarrow> string"
  time_Format :: "int \<Rightarrow> string"
  json_Valid :: "string \<Rightarrow> bool"

definition hashString :: "library \<Rightarrow> string \<Rightarrow> string" where
  "hashString lib data = base64_EncodeToString lib (sha256_Sum lib data)"

text \<open>\<open>blk.MustTime()\<close>: the time of the block, or a panic.\<close>

definition MustTime :: "Block \<Rightarrow> error + int" where
  "MustTime blk =
     (case Timestamp blk of
        None \<Rightarrow> Inl (Panic ''invalid timestamp'')
      | Some t \<Rightarrow> Inr t)"

text \<open>The verb \<open>%d\<close> of \<open>fmt.Sprintf\<close> on an unsigned number: its decimal digits.\<close>

function decimal :: "nat \<Rightarrow> string" where
  "decimal n =
     (if n < 10 then [char_of (0x30 + n)]
      else decimal (n div 10) @ [char_of (0x30 + n mod 10)])"
  by pat_completeness auto
termination
  by (relation "measure id") auto

declare decimal.simps [simp del]

section \<open>Expression programs: evalString and evalStringArray\<close>

text \<open>
  A compiled CEL program is a function from the activation to an evaluation error
  or a value; \<open>ConvertToNative\<close> gives the Go string of a string value, the Go slice
  of a list of string values, and an error for any other value.
\<close>

datatype ref_Val =
    String_val string
  | Bool_val bool
  | Int_val int
  | List_val "ref_Val list"

type_synonym 'a Program = "'a \<Rightarrow> error + ref_Val"

fun ConvertToNative_string :: "ref_Val \<Rightarrow> error + string" where
  "ConvertToNative_string (String_val s) = Inr s"
| "ConvertToNative_string _ = Inl (Failure ''type conversion error'')"

fun ConvertToNative_strings :: "ref_Val list \<Rightarrow> error + string list" where
  "ConvertToNative_strings [] = Inr []"
| "ConvertToNative_strings (v # vs) =
     (case ConvertToNative_string v of
        Inl e \<Rightarrow> Inl e
      | Inr s \<Rightarrow>
          (case ConvertToNative_strings vs of
             Inl e \<Rightarrow> Inl e
           | Inr ss \<Rightarrow> Inr (s # ss)))"

fun ConvertToNative_stringArray :: "ref_Val \<Rightarrow> error + string list" where
  "ConvertToNative_stringArray (List_val vs) = ConvertToNative_strings vs"
| "ConvertToNative_stringArray _ = Inl (Failure ''type conversion error'')"

definition evalString :: "'a Program \<Rightarrow> 'a \<Rightarrow> error + string" where
  "evalString prog activation =
     (case prog activation of
        Inl err \<Rightarrow> Inl err
      | Inr res \<Rightarrow> ConvertToNative_string res)"

definition evalStringArray :: "'a Program \<Rightarrow> 'a \<Rightarrow> error + string list" where
  "evalStringArray prog activation =
     (case prog activation of
        Inl err \<Rightarrow> Inl err
      | Inr res \<Rightarrow> ConvertToNative_stringArray res)"

section \<open>The event and its JSON document\<close>

text \<open>
  The structs \<open>ActionInfo\<close> and \<open>event\<close> as the sources declare them, with the
  JSON names of their tags. \<open>JSONData\<close> points at a \<open>json.RawMessage\<close>: \<open>None\<close> is
  the nil message.
\<close>

record ActionInfo =
  Account :: string
  Receiver :: string
  Action :: string
  GlobalSequence :: "64 word"
  Authorization :: "string list"
  JSONData :: "string option"

record event =
  BlockNum :: "32 word"
  BlockID :: string
  Status :: string
  Step :: string
  TransactionID :: string
  ActionInfo :: ActionInfo

text \<open>
  A JSON document, as a tree: the names of the fields of an object and their
  order, not the bytes of the output. \<open>JRaw\<close> stands for the value that a
  \<open>json.RawMessage\<close> holds; \<open>json.Marshal\<close> writes its text compacted and with the
  HTML characters escaped.
\<close>

datatype json =
    JNull
  | JBool bool
  | JNumber nat
  | JString string
  | JRaw string
  | JArray "json list"
  | JObject "(string \<times> json) list"

text \<open>
  \<open>json.Marshal\<close> on the two structs: every field is written, under the name of its
  tag and in the order of the declaration (no tag has \<open>omitempty\<close>). A nil slice
  and a nil raw message are \<open>null\<close>.
\<close>

definition Marshal_ActionInfo :: "ActionInfo \<Rightarrow> json" where
  "Marshal_ActionInfo a =
     JObject
       [(''account'', JString (ActionInfo.Account a)),
        (''receiver'', JString (ActionInfo.Receiver a)),
        (''action'', JString (ActionInfo.Action a)),
        (''global_seq'', JNumber (unat (ActionInfo.GlobalSequence a))),
        (''authorizations'',
           (case ActionInfo.Authorization a of
              [] \<Rightarrow> JNull
            | auths \<Rightarrow> JArray (map JString auths))),
        (''json_data'',
           (case ActionInfo.JSONData a of
              None \<Rightarrow> JNull
            | Some raw \<Rightarrow> JRaw raw))]"

definition Marshal_event :: "event \<Rightarrow> json" where
  "Marshal_event e =
     JObject
       [(''block_num'', JNumber (unat (event.BlockNum e))),
        (''block_id'', JString (event.BlockID e)),
        (''status'', JString (event.Status e)),
        (''block_step'', JString (event.Step e)),
        (''trx_id'', JString (event.TransactionID e)),
        (''act_info'', Marshal_ActionInfo (event.ActionInfo e))]"

text \<open>
  \<open>func (e event) JSON() []byte\<close>: the document, or the nil slice (\<open>None\<close>) when
  \<open>json.Marshal\<close> fails, which it does on a raw message that is not valid JSON; the
  method drops the error.
\<close>

definition event_JSON :: "library \<Rightarrow> event \<Rightarrow> json option" where
  "event_JSON lib e =
     (case ActionInfo.JSONData (event.ActionInfo e) of
        None \<Rightarrow> Some (Marshal_event e)
      | Some raw \<Rightarrow> if json_Valid lib raw then Some (Marshal_event e) else None)"

definition field_names :: "json \<Rightarrow> string list" where
  "field_names d = (case d of JObject kvs \<Rightarrow> map fst kvs | _ \<Rightarrow> [])"

definition field_value :: "json \<Rightarrow> string \<Rightarrow> json option" where
  "field_value d name = (case d of JObject kvs \<Rightarrow> map_of kvs name | _ \<Rightarrow> None)"

definition is_object :: "json \<Rightarrow> bool" where
  "is_object d = (case d of JObject kvs \<Rightarrow> True | _ \<Rightarrow> False)"

section \<open>The generic adapter\<close>

text \<open>
  The struct literal that \<open>adapter.adapt\<close> fills names three fields more than the
  declared structs have: \<open>Executed\<close> and \<open>Correlation\<close> in the event, \<open>DBOps\<close> in the
  action info. The records below have the fields of the literal. The type of the
  correlation, the type of a decoded row mutation and the JSON encoding of this
  wider struct are not in the sources: the first two are type parameters and the
  third is the collaborator \<open>JSON\<close>.
\<close>

record 'd adapter_ActionInfo =
  Account :: string
  Receiver :: string
  Action :: string
  JSONData :: "string option"
  DBOps :: "'d list"
  Authorization :: "string list"
  GlobalSequence :: "64 word"

record ('c, 'd) adapter_event =
  BlockNum :: "32 word"
  BlockID :: string
  Status :: string
  Executed :: bool
  Step :: string
  Correlation :: 'c
  TransactionID :: string
  ActionInfo :: "'d adapter_ActionInfo"

record Header =
  Key :: string
  Value :: string

record TopicPartition =
  tp_Topic :: string
  tp_Partition :: int

record Message =
  msg_Key :: string
  msg_Headers :: "Header list"
  msg_Value :: string
  msg_TopicPartition :: TopicPartition

record 'a extension =
  name :: string
  expr :: string
  prog :: "'a Program"

text \<open>
  The functions of the package and of its dependencies that \<open>adapt\<close> calls and the
  sources do not hold.
\<close>

record ('a, 'c, 'd) collaborators =
  getCorrelation :: "ActionTrace list \<Rightarrow> error + 'c"
  NewActivation :: "string \<Rightarrow> TransactionTrace \<Rightarrow> ActionTrace \<Rightarrow> 'd list \<Rightarrow> error + 'a"
  HasBeenReverted :: "TransactionTrace \<Rightarrow> bool"
  JSON :: "('c, 'd) adapter_event \<Rightarrow> string"
  lib :: library

text \<open>
  The struct \<open>adapter\<close>. \<open>decodeDBOps\<close> returns both of its results, as the Go
  function does. \<open>saveBlock\<close> only writes a file or does nothing, and is left out,
  as are the counters of the metrics and the log lines other than the warning.
\<close>

record ('a, 'd) adapter =
  topic :: string
  decodeDBOps :: "DBOp list \<Rightarrow> 32 word \<Rightarrow> 'd list \<times> error option"
  failOnUndecodableDBOP :: bool
  eventTypeProg :: "'a Program"
  eventKeyProg :: "'a Program"
  extensions :: "'a extension list"
  headers :: "Header list"

text \<open>
  The loop over the extensions: a map from the name to the value, as an association
  list in which a later extension of the same name replaces the earlier one. Go
  leaves the order in which a map is ranged over open; the headers of the
  extensions are written here in the order of the list.
\<close>

fun eval_extensions ::
  "'a extension list \<Rightarrow> 'a \<Rightarrow> (string \<times> string) list \<Rightarrow> error + (string \<times> string) list" where
  "eval_extensions [] activation extensionsKV = Inr extensionsKV"
| "eval_extensions (ext # exts) activation extensionsKV =
     (case evalString (prog ext) activation of
        Inl err \<Rightarrow> Inl (Wrapped ''program'' err)
      | Inr val \<Rightarrow>
          eval_extensions exts activation (AList.update (name ext) val extensionsKV))"

text \<open>The message built for one event key, up to the \<open>return msg, nil\<close>.\<close>

definition message ::
  "('a, 'c, 'd) collaborators \<Rightarrow> ('a, 'd) adapter \<Rightarrow> Block \<Rightarrow> string \<Rightarrow> string \<Rightarrow>
   TransactionTrace \<Rightarrow> ActionTrace \<Rightarrow> ('c, 'd) adapter_event \<Rightarrow> string \<Rightarrow>
   (string \<times> string) list \<Rightarrow> string \<Rightarrow> error + Message" where
  "message co m blk rawStep step trx act eosioAction eventType extensionsKV eventKey =
     (let ce_id = hashString (lib co)
            (Id blk @ trx_Id trx @ decimal (unat (ExecutionIndex act)) @ rawStep @ eventKey)
      in case MustTime blk of
        Inl p \<Rightarrow> Inl p
      | Inr t \<Rightarrow>
          Inr \<lparr>msg_Key = eventKey,
               msg_Headers = headers m @
                 [\<lparr>Key = ''ce_id'', Value = ce_id\<rparr>,
                  \<lparr>Key = ''ce_type'', Value = eventType\<rparr>,
                  \<lparr>Key = ''ce_time'', Value = time_Format (lib co) t\<rparr>,
                  \<lparr>Key = ''ce_blkstep'', Value = step\<rparr>]
                 @ map (\<lambda>(k, v). \<lparr>Key = k, Value = v\<rparr>) extensionsKV,
               msg_Value = JSON co eosioAction,
               msg_TopicPartition = \<lparr>tp_Topic = topic m, tp_Partition = PartitionAny\<rparr>\<rparr>)"

text \<open>
  The loop over the event keys. A key that \<open>dedupeMap\<close> holds is skipped; for any
  other key the map is updated, the message is built and the function returns it.
\<close>

fun adapt_keys ::
  "(string \<Rightarrow> error + Message) \<Rightarrow> (string \<Rightarrow> bool) \<Rightarrow> string list \<Rightarrow> error + Message option" where
  "adapt_keys build dedupeMap [] = Inr None"
| "adapt_keys build dedupeMap (eventKey # eventKeys) =
     (if dedupeMap eventKey then adapt_keys build dedupeMap eventKeys
      else
        (let dedupeMap = dedupeMap(eventKey := True) in
         case build eventKey of
           Inl p \<Rightarrow> Inl p
         | Inr msg \<Rightarrow> Inr (Some msg)))"

text \<open>
  The body of the loop over the action traces, for an action the filter matched.
  The first component of the result is the list of warnings written to the log.
\<close>

definition adapt_action ::
  "('a, 'c, 'd) collaborators \<Rightarrow> ('a, 'd) adapter \<Rightarrow> Block \<Rightarrow> string \<Rightarrow> string \<Rightarrow>
   TransactionTrace \<Rightarrow> string \<Rightarrow> 'c \<Rightarrow> ActionTrace \<Rightarrow>
   string list \<times> (error + Message option)" where
  "adapt_action co m blk rawStep step trx status correlation act =
     (case trace_Action act of
        None \<Rightarrow> ([], Inl (Panic ''nil pointer dereference''))
      | Some a \<Rightarrow>
          let jsonData = (if action_JsonData a \<noteq> [] then Some (action_JsonData a) else None);
              authorizations = map Authorization_string (action_Authorization a);
              globalSeq = (case trace_Receipt act of
                             None \<Rightarrow> 0
                           | Some receipt \<Rightarrow> receipt_GlobalSequence receipt);
              (decodedDBOps, err) =
                 decodeDBOps m (DBOpsForAction trx (ExecutionIndex act)) (Number blk)
          in case (case err of
                     None \<Rightarrow> Inr []
                   | Some e \<Rightarrow>
                       if failOnUndecodableDBOP m then Inl e
                       else Inr [''cannot decode dbops'']) of
               Inl e \<Rightarrow> ([], Inl e)
             | Inr warnings \<Rightarrow>
               case NewActivation co step trx act decodedDBOps of
                 Inl e \<Rightarrow> (warnings, Inl e)
               | Inr activation \<Rightarrow>
                   let eosioAction =
                         \<lparr>BlockNum = Number blk,
                          BlockID = Id blk,
                          Status = status,
                          Executed = \<not> HasBeenReverted co trx,
                          Step = step,
                          Correlation = correlation,
                          TransactionID = trx_Id trx,
                          ActionInfo =
                            \<lparr>Account = action_Account a,
                             Receiver = trace_Receiver act,
                             Action = action_Name a,
                             JSONData = jsonData,
                             DBOps = decodedDBOps,
                             Authorization = authorizations,
                             GlobalSequence = globalSeq\<rparr>\<rparr>
                   in case evalString (eventTypeProg m) activation of
                     Inl e \<Rightarrow> (warnings, Inl (Wrapped ''error eventtype eval'' e))
                   | Inr eventType \<Rightarrow>
                       (case eval_extensions (extensions m) activation [] of
                          Inl e \<Rightarrow> (warnings, Inl e)
                        | Inr extensionsKV \<Rightarrow>
                            (case evalStringArray (eventKeyProg m) activation of
                               Inl e \<Rightarrow> (warnings, Inl (Wrapped ''event keyeval'' e))
                             | Inr eventKeys \<Rightarrow>
                                 (warnings,
                                  adapt_keys
                                    (message co m blk rawStep step trx act eosioAction
                                       eventType extensionsKV)
                                    (\<lambda>k. False) eventKeys))))"

text \<open>
  The loop over the action traces of a transaction: an action the filter did not
  match is skipped; the function returns at the first error and at the first message.
\<close>

fun adapt_actions ::
  "('a, 'c, 'd) collaborators \<Rightarrow> ('a, 'd) adapter \<Rightarrow> Block \<Rightarrow> string \<Rightarrow> string \<Rightarrow>
   TransactionTrace \<Rightarrow> string \<Rightarrow> 'c \<Rightarrow> ActionTrace list \<Rightarrow>
   string list \<times> (error + Message option)" where
  "adapt_actions co m blk rawStep step trx status correlation [] = ([], Inr None)"
| "adapt_actions co m blk rawStep step trx status correlation (act # acts) =
     (if \<not> FilteringMatched act
        then adapt_actions co m blk rawStep step trx status correlation acts
      else
        (case adapt_action co m blk rawStep step trx status correlation act of
           (warnings, Inl e) \<Rightarrow> (warnings, Inl e)
         | (warnings, Inr (Some msg)) \<Rightarrow> (warnings, Inr (Some msg))
         | (warnings, Inr None) \<Rightarrow>
             (let (warnings', r) = adapt_actions co m blk rawStep step trx status correlation acts
              in (warnings @ warnings', r))))"

text \<open>The loop over the transaction traces of the block.\<close>

fun adapt_trxs ::
  "('a, 'c, 'd) collaborators \<Rightarrow> ('a, 'd) adapter \<Rightarrow> Block \<Rightarrow> string \<Rightarrow> string \<Rightarrow>
   TransactionTrace list \<Rightarrow> string list \<times> (error + Message option)" where
  "adapt_trxs co m blk rawStep step [] = ([], Inr None)"
| "adapt_trxs co m blk rawStep step (trx # trxs) =
     (case trx_Receipt trx of
        None \<Rightarrow> ([], Inl (Panic ''nil pointer dereference''))
      | Some receipt \<Rightarrow>
          let status = sanitizeStatus (Status_String (header_Status receipt))
          in case getCorrelation co (ActionTraces trx) of
            Inl err \<Rightarrow> ([], Inl err)
          | Inr correlation \<Rightarrow>
              (case adapt_actions co m blk rawStep step trx status correlation (ActionTraces trx) of
                 (warnings, Inl e) \<Rightarrow> (warnings, Inl e)
               | (warnings, Inr (Some msg)) \<Rightarrow> (warnings, Inr (Some msg))
               | (warnings, Inr None) \<Rightarrow>
                   (let (warnings', r) = adapt_trxs co m blk rawStep step trxs
                    in (warnings @ warnings', r))))"

definition adapt ::
  "('a, 'c, 'd) collaborators \<Rightarrow> ('a, 'd) adapter \<Rightarrow> Block \<Rightarrow> string \<Rightarrow>
   string list \<times> (error + Message option)" where
  "adapt co m blk rawStep =
     (let step = sanitizeStep rawStep
      in adapt_trxs co m blk rawStep step (TransactionTraces blk))"

text \<open>
  An event describes an action of a transaction of a block when its fields are
  those of the action: the identifiers of the block and of the transaction, the
  account, the receiver and the name of the action, and the global sequence number
  of the action's receipt, \<open>0\<close> for an action without a receipt.
\<close>

definition describes ::
  "('c, 'd) adapter_event \<Rightarrow> Block \<Rightarrow> TransactionTrace \<Rightarrow> ActionTrace \<Rightarrow> bool" where
  "describes ev blk trx act =
     (case trace_Action act of
        None \<Rightarrow> False
      | Some a \<Rightarrow>
          BlockNum ev = Number blk \<and> BlockID ev = Id blk \<and> TransactionID ev = trx_Id trx \<and>
          Account (ActionInfo ev) = action_Account a \<and>
          Receiver (ActionInfo ev) = trace_Receiver act \<and>
          Action (ActionInfo ev) = action_Name a \<and>
          GlobalSequence (ActionInfo ev) =
            (case trace_Receipt act of
               None \<Rightarrow> 0
             | Some receipt \<Rightarrow> receipt_GlobalSequence receipt))"

text \<open>The \<open>ce_id\<close> header that \<open>adapt\<close> puts after the configured headers.\<close>

definition ce_id_header :: "('a, 'd) adapter \<Rightarrow> Message \<Rightarrow> Header option" where
  "ce_id_header m msg =
     (if length (headers m) < length (msg_Headers msg)
      then Some (msg_Headers msg ! length (headers m)) else None)"

section \<open>The CloudEvents pipeline: the block loop of the earlier \<open>App.Run\<close>\<close>

text \<open>
  The second \<open>App.Run\<close> of the sources builds a CloudEvents event for every event
  key and sends it with the key. \<open>Data\<close> is the declared \<open>event\<close> struct, which
  \<open>SetData\<close> encodes as JSON; \<open>Extensions\<close> is the map of the extensions set on it.
\<close>

record cloudevent =
  ce_ID :: string
  ce_Type :: string
  ce_Source :: string
  ce_Extensions :: "(string \<times> string) list"
  ce_Time :: int
  ce_Data :: event

record sent =
  MessageKey :: string
  Event :: cloudevent

record 'a pipeline =
  EventSource :: string
  pl_eventTypeProg :: "'a Program"
  pl_eventKeyProg :: "'a Program"
  pl_extensions :: "'a extension list"
  NewActionTraceActivation :: "ActionTrace \<Rightarrow> TransactionTrace \<Rightarrow> string \<Rightarrow> 'a"
  pl_lib :: library

fun SetExtensions :: "(string \<times> string) list \<Rightarrow> (string \<times> string) list \<Rightarrow> (string \<times> string) list" where
  "SetExtensions [] exts = exts"
| "SetExtensions ((k, v) # kvs) exts = SetExtensions kvs (AList.update k v exts)"

definition cloud_event ::
  "'a pipeline \<Rightarrow> Block \<Rightarrow> string \<Rightarrow> string \<Rightarrow> TransactionTrace \<Rightarrow> ActionTrace \<Rightarrow>
   event \<Rightarrow> string \<Rightarrow> (string \<times> string) list \<Rightarrow> string \<Rightarrow> error + sent" where
  "cloud_event p blk rawStep step trx act eosioAction eventType extensionsKV eventKey =
     (let ident = hashString (pl_lib p)
            (Id blk @ trx_Id trx @ decimal (unat (ExecutionIndex act)) @ rawStep @ eventKey);
          exts = AList.update ''blkstep'' step
                   (AList.update ''datacontenttype'' ''application/json''
                      (SetExtensions extensionsKV []))
      in case MustTime blk of
        Inl pn \<Rightarrow> Inl pn
      | Inr t \<Rightarrow>
          Inr \<lparr>MessageKey = eventKey,
               Event = \<lparr>ce_ID = ident, ce_Type = eventType, ce_Source = EventSource p,
                        ce_Extensions = exts, ce_Time = t, ce_Data = eosioAction\<rparr>\<rparr>)"

text \<open>
  The loop over the event keys: every key gives an event, which is sent; a send that
  is not delivered is logged and the loop goes on. The result is the list of the
  events sent and the error or panic that ended the loop, if any.
\<close>

fun send_keys :: "(string \<Rightarrow> error + sent) \<Rightarrow> string list \<Rightarrow> sent list \<times> error option" where
  "send_keys build [] = ([], None)"
| "send_keys build (eventKey # eventKeys) =
     (case build eventKey of
        Inl pn \<Rightarrow> ([], Some pn)
      | Inr e \<Rightarrow>
          (let (rest, err) = send_keys build eventKeys in (e # rest, err)))"

definition Run_action ::
  "'a pipeline \<Rightarrow> Block \<Rightarrow> string \<Rightarrow> string \<Rightarrow> TransactionTrace \<Rightarrow> string \<Rightarrow> ActionTrace \<Rightarrow>
   sent list \<times> error option" where
  "Run_action p blk rawStep step trx status act =
     (case trace_Action act of
        None \<Rightarrow> ([], Some (Panic ''nil pointer dereference''))
      | Some a \<Rightarrow>
          let jsonData = (if action_JsonData a \<noteq> [] then Some (action_JsonData a) else None);
              activation = NewActionTraceActivation p act trx rawStep;
              auths = map Authorization_string (action_Authorization a)
          in case trace_Receipt act of
            None \<Rightarrow> ([], Some (Panic ''nil pointer dereference''))
          | Some receipt \<Rightarrow>
              let eosioAction =
                    \<lparr>event.BlockNum = Number blk,
                     event.BlockID = Id blk,
                     event.Status = status,
                     event.Step = step,
                     event.TransactionID = trx_Id trx,
                     event.ActionInfo =
                       \<lparr>ActionInfo.Account = action_Account a,
                        ActionInfo.Receiver = trace_Receiver act,
                        ActionInfo.Action = action_Name a,
                        ActionInfo.GlobalSequence = receipt_GlobalSequence receipt,
                        ActionInfo.Authorization = auths,
                        ActionInfo.JSONData = jsonData\<rparr>\<rparr>
              in case evalString (pl_eventTypeProg p) activation of
                Inl e \<Rightarrow> ([], Some (Wrapped ''error eventtype eval'' e))
              | Inr eventType \<Rightarrow>
                  (case eval_extensions (pl_extensions p) activation [] of
                     Inl e \<Rightarrow> ([], Some e)
                   | Inr extensionsKV \<Rightarrow>
                       (case evalStringArray (pl_eventKeyProg p) activation of
                          Inl e \<Rightarrow> ([], Some (Wrapped ''event keyeval'' e))
                        | Inr eventKeys \<Rightarrow>
                            send_keys
                              (cloud_event p blk rawStep step trx act eosioAction
                                 eventType extensionsKV)
                              eventKeys)))"

fun Run_actions ::
  "'a pipeline \<Rightarrow> Block \<Rightarrow> string \<Rightarrow> string \<Rightarrow> TransactionTrace \<Rightarrow> string \<Rightarrow>
   ActionTrace list \<Rightarrow> sent list \<times> error option" where
  "Run_actions p blk rawStep step trx status [] = ([], None)"
| "Run_actions p blk rawStep step trx status (act # acts) =
     (if \<not> FilteringMatched act then Run_actions p blk rawStep step trx status acts
      else
        (case Run_action p blk rawStep step trx status act of
           (out, Some e) \<Rightarrow> (out, Some e)
         | (out, None) \<Rightarrow>
             (let (out', r) = Run_actions p blk rawStep step trx status acts
              in (out @ out', r))))"

fun Run_trxs ::
  "'a pipeline \<Rightarrow> Block \<Rightarrow> string \<Rightarrow> string \<Rightarrow> TransactionTrace list \<Rightarrow>
   sent list \<times> error option" where
  "Run_trxs p blk rawStep step [] = ([], None)"
| "Run_trxs p blk rawStep step (trx # trxs) =
     (case trx_Receipt trx of
        None \<Rightarrow> ([], Some (Panic ''nil pointer dereference''))
      | Some receipt \<Rightarrow>
          let status = sanitizeStatus (Status_String (header_Status receipt))
          in case Run_actions p blk rawStep step trx status (ActionTraces trx) of
            (out, Some e) \<Rightarrow> (out, Some e)
          | (out, None) \<Rightarrow>
              (let (out', r) = Run_trxs p blk rawStep step trxs in (out @ out', r)))"

text \<open>One turn of the loop of \<open>Run\<close>, from the decoded block on.\<close>

definition Run_block :: "'a pipeline \<Rightarrow> Block \<Rightarrow> string \<Rightarrow> sent list \<times> error option" where
  "Run_block p blk rawStep =
     (let step = sanitizeStep rawStep
      in Run_trxs p blk rawStep step (TransactionTraces blk))"

text \<open>The same for the declared \<open>event\<close>, which is built only for an action with a receipt.\<close>

definition describes_data :: "event \<Rightarrow> Block \<Rightarrow> TransactionTrace \<Rightarrow> ActionTrace \<Rightarrow> bool" where
  "describes_data ev blk trx act =
     (case (trace_Action act, trace_Receipt act) of
        (Some a, Some receipt) \<Rightarrow>
          event.BlockNum ev = Number blk \<and> event.BlockID ev = Id blk \<and>
          event.TransactionID ev = trx_Id trx \<and>
          ActionInfo.Account (event.ActionInfo ev) = action_Account a \<and>
          ActionInfo.Receiver (event.ActionInfo ev) = trace_Receiver act \<and>
          ActionInfo.Action (event.ActionInfo ev) = action_Name a \<and>
          ActionInfo.GlobalSequence (event.ActionInfo ev) = receipt_GlobalSequence receipt
      | _ \<Rightarrow> False)"

section \<open>app.go: the loop of \<open>App.Run\<close>\<close>

text \<open>
  Modelled from the spec: the state of the sender, whose type and methods (\<open>Send\<close>,
  \<open>Commit\<close> and \<open>CommitIfAfter\<close> of the interface \<open>sender\<close>) are not in the sources.
  It keeps the messages published through the message sink, the cursors written to
  the checkpoint store, and the time of the last successful checkpoint. \<open>sink\<close>
  says which publishes and which checkpoint writes fail.
\<close>

record sink =
  send_fails :: "Message \<Rightarrow> bool"
  save_fails :: "string \<Rightarrow> bool"

record sender =
  published :: "Message list"
  checkpoints :: "string list"
  lastCommit :: int

text \<open>
  Modelled from the spec: \<open>Send\<close>, which is not in the sources. The spec's words:
  the pipeline publishes each resulting event through the message sink; a publish
  failure is fatal to the run.
\<close>

definition Send :: "sink \<Rightarrow> Message \<Rightarrow> sender \<Rightarrow> error option \<times> sender" where
  "Send sk msg s =
     (if send_fails sk msg then (Some (Failure ''publish''), s)
      else (None, s\<lparr>published := published s @ [msg]\<rparr>))"

text \<open>
  Modelled from the spec: \<open>Commit\<close>, which is not in the sources. The spec's words:
  forced commit, checkpoint unconditionally, regardless of the delay window; a save
  failure is fatal.
\<close>

definition Commit :: "sink \<Rightarrow> int \<Rightarrow> string \<Rightarrow> sender \<Rightarrow> error option \<times> sender" where
  "Commit sk now cursor s =
     (if save_fails sk cursor then (Some (Failure ''save''), s)
      else (None, s\<lparr>checkpoints := checkpoints s @ [cursor], lastCommit := now\<rparr>))"

text \<open>
  Modelled from the spec: \<open>CommitIfAfter\<close>, which is not in the sources. The spec's
  words: persist the cursor only if the elapsed time since the last successful
  checkpoint exceeds a configured minimum delay.
\<close>

definition CommitIfAfter ::
  "sink \<Rightarrow> int \<Rightarrow> string \<Rightarrow> int \<Rightarrow> sender \<Rightarrow> error option \<times> sender" where
  "CommitIfAfter sk now cursor minimumDelay s =
     (if now - lastCommit s > minimumDelay then Commit sk now cursor s else (None, s))"

text \<open>
  What the loop of \<open>Run\<close> is given. The list of turns is the stream of blocks: each
  turn holds the result of \<open>executor.Recv()\<close> (an error of the stream, or the
  response with its cursor, its step and its block, \<open>None\<close> when \<open>UnmarshalAny\<close>
  fails), the value \<open>a.IsTerminating()\<close> has when the loop reads it in that turn, and
  the time of the clock then. After the last turn \<open>Recv\<close> returns \<open>io.EOF\<close>.
\<close>

record response =
  resp_Cursor :: string
  resp_Step :: string
  resp_Block :: "Block option"

record turn =
  recv :: "error + response"
  IsTerminating :: bool
  now :: int

text \<open>
  The calls the loop makes on the stream and on the sender, in their order. The
  counters of the metrics are left out.
\<close>

datatype effect =
    Recv
  | Send_call Message
  | Commit_call string
  | CommitIfAfter_call string int

record state =
  trace :: "effect list"
  snd_state :: sender

text \<open>
  What \<open>Run\<close> has set up when the loop starts: the adapter behind the interface
  \<open>Adapter\<close>, the configured minimum delay between two commits, and the sink.
\<close>

record app =
  Adapt :: "Block \<Rightarrow> string \<Rightarrow> error + Message list"
  CommitMinDelay :: int
  the_sink :: sink

fun send_all :: "app \<Rightarrow> state \<Rightarrow> Message list \<Rightarrow> error option \<times> state" where
  "send_all a st [] = (None, st)"
| "send_all a st (kafkaMsg # kafkaMsgs) =
     (case Send (the_sink a) kafkaMsg (snd_state st) of
        (Some err, s) \<Rightarrow>
          (Some (Wrapped ''sending message'' err),
           st\<lparr>trace := trace st @ [Send_call kafkaMsg], snd_state := s\<rparr>)
      | (None, s) \<Rightarrow>
          send_all a (st\<lparr>trace := trace st @ [Send_call kafkaMsg], snd_state := s\<rparr>) kafkaMsgs)"

fun Run_loop :: "app \<Rightarrow> state \<Rightarrow> turn list \<Rightarrow> error option \<times> state" where
  "Run_loop a st [] = (None, st\<lparr>trace := trace st @ [Recv]\<rparr>)"
| "Run_loop a st (t # ts) =
     (let st = st\<lparr>trace := trace st @ [Recv]\<rparr> in
      case recv t of
        Inl err \<Rightarrow>
          if err = EOF then (None, st) else (Some (Wrapped ''error on receive'' err), st)
      | Inr msg \<Rightarrow>
          (case resp_Block msg of
             None \<Rightarrow> (Some (Wrapped ''decoding any of type'' (Failure ''unmarshal'')), st)
           | Some blk \<Rightarrow>
               (case Adapt a blk (resp_Step msg) of
                  Inl err \<Rightarrow>
                    (Some (Wrapped (''transform to kafka message: '' @ resp_Cursor msg) err), st)
                | Inr kafkaMsgs \<Rightarrow>
                    (case send_all a st kafkaMsgs of
                       (Some err, st) \<Rightarrow> (Some err, st)
                     | (None, st) \<Rightarrow>
                         if IsTerminating t then
                           (case Commit (the_sink a) (now t) (resp_Cursor msg) (snd_state st) of
                              (r, s) \<Rightarrow>
                                (r, st\<lparr>trace := trace st @ [Commit_call (resp_Cursor msg)],
                                      snd_state := s\<rparr>))
                         else
                           (case CommitIfAfter (the_sink a) (now t) (resp_Cursor msg)
                                   (CommitMinDelay a) (snd_state st) of
                              (Some err, s) \<Rightarrow>
                                (Some (Wrapped ''committing message'' err),
                                 st\<lparr>trace := trace st @
                                        [CommitIfAfter_call (resp_Cursor msg) (CommitMinDelay a)],
                                     snd_state := s\<rparr>)
                            | (None, s) \<Rightarrow>
                                Run_loop a
                                  (st\<lparr>trace := trace st @
                                         [CommitIfAfter_call (resp_Cursor msg) (CommitMinDelay a)],
                                      snd_state := s\<rparr>) ts)))))"

declare Run_loop.simps(2) [simp del]

section \<open>Concrete inputs\<close>

text \<open>Checkpointers, a file system and brokers on which the properties are evaluated.\<close>

definition fc0 :: localFileCheckpointer where
  "fc0 = newFileCheckpointer ''dkafka.cursor''"

definition fs0 :: filesystem where
  "fs0 = \<lparr>entries = Map.empty, creatable = (\<lambda>name. True)\<rparr>"

definition ck0 :: kafkaCheckpointer where
  "ck0 = newKafkaCheckpointer ''cursors'' 0"

text \<open>A checkpointer configured with the cursor partition 10.\<close>

definition ck10 :: kafkaCheckpointer where
  "ck10 = newKafkaCheckpointer ''cursors'' 10"

definition broker_without_topic :: kafka where
  "broker_without_topic = \<lparr>brokers = 1, topics = Map.empty, any_partition = 0, failing = [], created = []\<rparr>"

definition broker_empty_topic :: kafka where
  "broker_empty_topic =
     \<lparr>brokers = 1, topics = [''cursors'' \<mapsto> [\<lparr>low = 0, slots = []\<rparr>]], any_partition = 0,
      failing = [], created = []\<rparr>"

definition broker_vacant_topic :: kafka where
  "broker_vacant_topic =
     \<lparr>brokers = 3, topics = [''cursors'' \<mapsto> [\<lparr>low = 5, slots = [Vacant, Vacant]\<rparr>]],
      any_partition = 0, failing = [], created = []\<rparr>"

text \<open>
  Collaborators for the adapters. The digest and the base64 encoder are stand-ins
  (the identity), the time is written as its number, and the JSON encoder of the
  adapter's event is a stand-in that writes four of its fields. The activation is
  the action trace itself, a decoded row mutation is the mutation, the correlation
  is a string.
\<close>

definition lib0 :: library where
  "lib0 = \<lparr>sha256_Sum = (\<lambda>s. s), base64_EncodeToString = (\<lambda>s. s),
            time_Format = (\<lambda>t. decimal (nat t)), json_Valid = (\<lambda>s. s = ''{}'')\<rparr>"

definition co0 :: "(ActionTrace, string, DBOp) collaborators" where
  "co0 = \<lparr>getCorrelation = (\<lambda>acts. Inr ''''),
           NewActivation = (\<lambda>step trx act ops. Inr act),
           HasBeenReverted = (\<lambda>trx. False),
           JSON = (\<lambda>e. BlockID e @ ''/'' @ TransactionID e @ ''/'' @ Action (ActionInfo e) @ ''/''
                         @ decimal (unat (GlobalSequence (ActionInfo e)))),
           lib = lib0\<rparr>"

text \<open>
  The adapter of the scenario: the event type is \<open>Created\<close> and the event keys are
  \<open>a\<close>, \<open>a\<close>, \<open>b\<close>. The row decoder fails on every non-empty list of mutations.
\<close>

definition decode0 :: "DBOp list \<Rightarrow> 32 word \<Rightarrow> DBOp list \<times> error option" where
  "decode0 ops blockNum = (if ops = [] then ([], None) else ([], Some (Failure ''undecodable'')))"

definition m0 :: "(ActionTrace, DBOp) adapter" where
  "m0 = \<lparr>topic = ''events'', decodeDBOps = decode0, failOnUndecodableDBOP = False,
          eventTypeProg = (\<lambda>a. Inr (String_val ''Created'')),
          eventKeyProg = (\<lambda>a. Inr (List_val [String_val ''a'', String_val ''a'', String_val ''b''])),
          extensions = [], headers = []\<rparr>"

definition m_strict :: "(ActionTrace, DBOp) adapter" where
  "m_strict = m0\<lparr>failOnUndecodableDBOP := True\<rparr>"

definition create :: Action where
  "create = \<lparr>action_Account = ''eosio.token'', action_Name = ''create'',
              action_Authorization = [\<lparr>Actor = ''alice'', Permission = ''active''\<rparr>],
              action_JsonData = ''{}''\<rparr>"

text \<open>A matched action without a receipt, and the block #100 that holds only it.\<close>

definition act0 :: ActionTrace where
  "act0 = \<lparr>trace_Receiver = ''eosio.token'', trace_Receipt = None, trace_Action = Some create,
            ExecutionIndex = 0, FilteringMatched = True\<rparr>"

definition trx0 :: TransactionTrace where
  "trx0 = \<lparr>trx_Id = ''t1'', trx_Receipt = Some \<lparr>header_Status = TRANSACTIONSTATUS_EXECUTED\<rparr>,
            ActionTraces = [act0], DbOps = []\<rparr>"

definition blk100 :: Block where
  "blk100 = \<lparr>Id = ''b100'', Number = 100, Timestamp = Some 0, TransactionTraces = [trx0]\<rparr>"

definition msg_a :: Message where
  "msg_a = \<lparr>msg_Key = ''a'',
             msg_Headers = [\<lparr>Key = ''ce_id'', Value = ''b100t10STEP_NEWa''\<rparr>,
                            \<lparr>Key = ''ce_type'', Value = ''Created''\<rparr>,
                            \<lparr>Key = ''ce_time'', Value = ''0''\<rparr>,
                            \<lparr>Key = ''ce_blkstep'', Value = ''NEW''\<rparr>],
             msg_Value = ''b100/t1/create/0'',
             msg_TopicPartition = \<lparr>tp_Topic = ''events'', tp_Partition = -1\<rparr>\<rparr>"

text \<open>
  A block with two matched actions: the first has no row mutation, the second has
  one, which the decoder cannot decode.
\<close>

definition act1 :: ActionTrace where
  "act1 = \<lparr>trace_Receiver = ''eosio.token'',
            trace_Receipt = Some \<lparr>receipt_GlobalSequence = 7\<rparr>, trace_Action = Some create,
            ExecutionIndex = 1, FilteringMatched = True\<rparr>"

definition trx2 :: TransactionTrace where
  "trx2 = \<lparr>trx_Id = ''t1'', trx_Receipt = Some \<lparr>header_Status = TRANSACTIONSTATUS_EXECUTED\<rparr>,
            ActionTraces = [act0, act1],
            DbOps = [\<lparr>ActionIndex = 1, TableName = ''accounts'', Scope = ''alice'',
                      OldData = [], NewData = ''00ff''\<rparr>]\<rparr>"

definition blk2 :: Block where
  "blk2 = \<lparr>Id = ''b100'', Number = 100, Timestamp = Some 0, TransactionTraces = [trx2]\<rparr>"

text \<open>
  A block with two matched actions, the first with a receipt and the second
  without one, and the message of the first.
\<close>

definition trx3 :: TransactionTrace where
  "trx3 = \<lparr>trx_Id = ''t1'', trx_Receipt = Some \<lparr>header_Status = TRANSACTIONSTATUS_EXECUTED\<rparr>,
            ActionTraces = [act1, act0], DbOps = []\<rparr>"

definition blk3 :: Block where
  "blk3 = \<lparr>Id = ''b100'', Number = 100, Timestamp = Some 0, TransactionTraces = [trx3]\<rparr>"

definition msg_7 :: Message where
  "msg_7 = \<lparr>msg_Key = ''a'',
             msg_Headers = [\<lparr>Key = ''ce_id'', Value = ''b100t11STEP_NEWa''\<rparr>,
                            \<lparr>Key = ''ce_type'', Value = ''Created''\<rparr>,
                            \<lparr>Key = ''ce_time'', Value = ''0''\<rparr>,
                            \<lparr>Key = ''ce_blkstep'', Value = ''NEW''\<rparr>],
             msg_Value = ''b100/t1/create/7'',
             msg_TopicPartition = \<lparr>tp_Topic = ''events'', tp_Partition = -1\<rparr>\<rparr>"

text \<open>A block whose only action the filter did not match.\<close>

definition trx_unmatched :: TransactionTrace where
  "trx_unmatched = \<lparr>trx_Id = ''t9'', trx_Receipt = Some \<lparr>header_Status = TRANSACTIONSTATUS_EXECUTED\<rparr>,
            ActionTraces = [act1\<lparr>FilteringMatched := False\<rparr>], DbOps = []\<rparr>"

definition blk_unmatched :: Block where
  "blk_unmatched = \<lparr>Id = ''b101'', Number = 101, Timestamp = Some 0,
                     TransactionTraces = [trx_unmatched]\<rparr>"

text \<open>The CloudEvents pipeline with the same expressions, and a block for it.\<close>

definition p0 :: "ActionTrace pipeline" where
  "p0 = \<lparr>EventSource = ''dkafka'',
          pl_eventTypeProg = (\<lambda>a. Inr (String_val ''Created'')),
          pl_eventKeyProg = (\<lambda>a. Inr (List_val [String_val ''a'', String_val ''a'', String_val ''b''])),
          pl_extensions = [],
          NewActionTraceActivation = (\<lambda>act trx step. act),
          pl_lib = lib0\<rparr>"

definition trx1 :: TransactionTrace where
  "trx1 = \<lparr>trx_Id = ''t1'', trx_Receipt = Some \<lparr>header_Status = TRANSACTIONSTATUS_EXECUTED\<rparr>,
            ActionTraces = [act1], DbOps = []\<rparr>"

definition blk1 :: Block where
  "blk1 = \<lparr>Id = ''b100'', Number = 100, Timestamp = Some 0, TransactionTraces = [trx1]\<rparr>"





text \<open>
  A pipeline for the loop of \<open>Run\<close>: the adapter gives the message \<open>msg_a\<close> for every
  block, no publish and no checkpoint write fails, and the minimum delay between
  two commits is 30 seconds (in nanoseconds). The sender starts with no checkpoint
  written and the time of its last commit at 0.
\<close>

definition app0 :: app where
  "app0 = \<lparr>Adapt = (\<lambda>blk step. Inr [msg_a]), CommitMinDelay = 30000000000,
            the_sink = \<lparr>send_fails = (\<lambda>m. False), save_fails = (\<lambda>c. False)\<rparr>\<rparr>"

definition st0 :: state where
  "st0 = \<lparr>trace = [], snd_state = \<lparr>published = [], checkpoints = [], lastCommit = 0\<rparr>\<rparr>"

definition turn_at :: "string \<Rightarrow> bool \<Rightarrow> int \<Rightarrow> turn" where
  "turn_at cursor terminating t =
     \<lparr>recv = Inr \<lparr>resp_Cursor = cursor, resp_Step = ''STEP_NEW'', resp_Block = Some blk100\<rparr>,
      IsTerminating = terminating, now = t\<rparr>"

section \<open>Properties of the checkpointers\<close>

lemma file_Load_missing:
  "entries fs (filename c) = None \<Longrightarrow> file_Load c fs = Inl NoCursorErr"
  by (simp add: file_Load_def ReadFile_def)

lemma file_Save_Load:
  assumes "file_Save c cursor fs = (None, fs')" and "filename c' = filename c"
  shows "file_Load c' fs' = Inr cursor"
  using assms
  by (auto simp: file_Save_def file_Load_def WriteFile_def ReadFile_def
      split: option.splits file_entry.splits if_splits)

lemma scan_none:
  "\<forall>j. lo \<le> j \<and> j \<le> i \<longrightarrow> \<not> fails k (Assign j) \<and> Poll_at k (kafkaCheckpointer.topic c) (sint (partition c)) j = no_event
   \<Longrightarrow> scan k c i lo = Inl NoCursorErr"
proof (induction k c i lo rule: scan.induct)
  case (1 k c i lo)
  show ?case
  proof (cases "i \<ge> lo")
    case True
    with "1.prems" have a: "\<not> fails k (Assign i)" and p: "Poll_at k (kafkaCheckpointer.topic c) (sint (partition c)) i = no_event"
      by auto
    have "scan k c (i - 1) lo = Inl NoCursorErr"
      using "1.IH"[OF True a p] "1.prems" by simp
    then show ?thesis using True a p by (subst scan.simps) simp
  next
    case False
    then show ?thesis by (subst scan.simps) simp
  qed
qed

lemma Poll_at_vacant:
  assumes "lookup_partition k t p = Some lg" "\<forall>s\<in>set (slots lg). s = Vacant" "failing k = []"
  shows "Poll_at k t p j = no_event"
proof -
  have "slots lg ! n = Vacant" if "n < length (slots lg)" for n
    using assms(2) that by (simp add: all_set_conv_all_nth)
  then have "slots lg ! nat (j - int (low lg)) = Vacant"
    if "int (low lg) \<le> j" "j < int (low lg) + int (length (slots lg))"
    using that by simp
  then show ?thesis
    using assms(1,3) by (simp add: Poll_at_def fails_def)
qed

lemma kafka_Load_no_message:
  assumes lg: "lookup_partition k (kafkaCheckpointer.topic c) (sint (partition c)) = Some lg"
    and vac: "\<forall>s\<in>set (slots lg). s = Vacant"
    and nf: "failing k = []"
  shows "kafka_Load c k = (Inl NoCursorErr, k)"
proof -
  from lg have rng: "0 \<le> sint (partition c)" "sint (partition c) < int (length (Partitions k (kafkaCheckpointer.topic c)))"
    by (auto simp: lookup_partition_def split: if_splits)
  have sc: "scan k c i lo = Inl NoCursorErr" for i lo
    by (rule scan_none) (simp add: Poll_at_vacant[OF lg vac nf] fails_def nf)
  have wm: "QueryWatermarks k (kafkaCheckpointer.topic c) (sint (partition c)) =
      Inr (int (low lg), int (low lg) + int (length (slots lg)))"
    using lg nf by (simp add: QueryWatermarks_def fails_def)
  from rng have ne: "length (Partitions k (kafkaCheckpointer.topic c)) \<noteq> 0" by auto
  show ?thesis
    unfolding kafka_Load_def using rng nf ne by (simp add: fails_def wm sc Let_def)
qed

lemma lookup_created:
  assumes "0 \<le> p" "p < 10"
  shows "lookup_partition (k\<lparr>topics := (topics k)(t \<mapsto> replicate 10 \<lparr>low = 0, slots = []\<rparr>), created := cr\<rparr>) t p
     = Some \<lparr>low = 0, slots = []\<rparr>"
  using assms by (simp add: lookup_partition_def Partitions_def)

lemma kafka_Load_topic_absent:
  assumes ab: "topics k (kafkaCheckpointer.topic c) = None"
    and nf: "failing k = []"
    and rng: "0 \<le> sint (partition c)" "sint (partition c) < 10"
  shows "kafka_Load c k =
     (Inl NoCursorErr,
      k\<lparr>topics := (topics k)(kafkaCheckpointer.topic c \<mapsto> replicate 10 \<lparr>low = 0, slots = []\<rparr>),
        created := created k @
          [\<lparr>Topic = kafkaCheckpointer.topic c, NumPartitions = 10,
            ReplicationFactor = min 3 (int (brokers k))\<rparr>]\<rparr>)"
proof -
  let ?k' = "k\<lparr>topics := (topics k)(kafkaCheckpointer.topic c \<mapsto> replicate 10 \<lparr>low = 0, slots = []\<rparr>),
        created := created k @
          [\<lparr>Topic = kafkaCheckpointer.topic c, NumPartitions = 10,
            ReplicationFactor = min 3 (int (brokers k))\<rparr>]\<rparr>"
  have cr: "createKafkaCursorTopic k (kafkaCheckpointer.topic c) (int (brokers k)) = (None, ?k')"
    using nf by (simp add: createKafkaCursorTopic_def fails_def Let_def min_def)
  have lg: "lookup_partition ?k' (kafkaCheckpointer.topic c) (sint (partition c)) = Some \<lparr>low = 0, slots = []\<rparr>"
    using rng by (rule lookup_created)
  have wm: "QueryWatermarks ?k' (kafkaCheckpointer.topic c) (sint (partition c)) = Inr (0, 0)"
    using lg nf by (simp add: QueryWatermarks_def fails_def)
  have sc: "scan ?k' c (-1) 0 = Inl NoCursorErr"
    by (subst scan.simps) simp
  have p0: "Partitions k (kafkaCheckpointer.topic c) = []" using ab by (simp add: Partitions_def)
  show ?thesis
    unfolding kafka_Load_def using nf by (simp add: fails_def p0 cr wm sc Let_def)
qed

text \<open>
  The record that \<open>Save\<close> writes is longer than the cursor, and it is what \<open>Load\<close>
  returns after a \<open>Save\<close> on any broker that has the cursor partition.
\<close>

lemma length_json_char: "1 \<le> length (json_char ch)"
  by (simp add: json_char_def)

lemma length_json_bytes: "length s \<le> length (json_bytes s)"
proof (induction s rule: json_bytes.induct)
  case 1
  then show ?case by simp
next
  case (2 b bs)
  let ?n = "rune_size (b # bs)"
  show ?case
  proof (cases "of_char b < (0x80 :: nat)")
    case True
    with 2 length_json_char[of b] show ?thesis
      by (simp add: json_bytes.simps(2))
  next
    case hi: False
    show ?thesis
    proof (cases "?n = 0")
      case True
      with 2 hi show ?thesis by (simp add: json_bytes.simps(2))
    next
      case nz: False
      show ?thesis
      proof (cases "take 3 (b # bs) = [CHR 0xE2, CHR 0x80, CHR 0xA8]")
        case True
        with 2(3)[OF hi nz True] hi nz show ?thesis
          by (simp add: json_bytes.simps(2))
      next
        case n1: False
        show ?thesis
        proof (cases "take 3 (b # bs) = [CHR 0xE2, CHR 0x80, CHR 0xA9]")
          case True
          with 2(4)[OF hi nz n1 True] hi nz n1 show ?thesis
            by (simp add: json_bytes.simps(2))
        next
          case n2: False
          have eq: "json_bytes (b # bs) = take ?n (b # bs) @ json_bytes (drop (?n - 1) bs)"
            using hi nz n1 n2 by (subst json_bytes.simps(2)) (simp only: if_False)
          have dr: "drop ?n (b # bs) = drop (?n - 1) bs"
            using nz by (cases ?n) simp_all
          have "length (b # bs) = length (take ?n (b # bs)) + length (drop ?n (b # bs))"
            by (simp only: length_append [symmetric] append_take_drop_id)
          also have "\<dots> \<le> length (take ?n (b # bs)) + length (json_bytes (drop (?n - 1) bs))"
            using 2(5)[OF hi nz n1 n2] by (simp only: dr add_le_cancel_left)
          finally show ?thesis by (simp only: eq length_append)
        qed
      qed
    qed
  qed
qed

lemma Marshal_cs_longer: "length cursor < length (Marshal_cs \<lparr>Cursor = cursor\<rparr>)"
  using length_json_bytes[of cursor]
  by (simp add: Marshal_cs_def json_string_def)

lemma Marshal_cs_differs: "Marshal_cs \<lparr>Cursor = cursor\<rparr> \<noteq> cursor"
  using Marshal_cs_longer[of cursor] by auto

lemma scan_newest:
  assumes "\<not> fails k (Assign i)" "Poll_at k (kafkaCheckpointer.topic c) (sint (partition c)) i = kafka_Message v" "lo \<le> i"
  shows "scan k c i lo = Inr v"
  using assms by (subst scan.simps) simp

lemma kafka_Save_then_Load:
  assumes nf: "failing k = []"
    and lg: "lookup_partition k (kafkaCheckpointer.topic c) (sint (partition c)) = Some lg"
  shows "fst (kafka_Load c (snd (kafka_Save c cursor k))) = Inr (Marshal_cs \<lparr>Cursor = cursor\<rparr>)"
proof -
  let ?t = "kafkaCheckpointer.topic c" and ?p = "sint (partition c)"
  let ?v = "Marshal_cs \<lparr>Cursor = cursor\<rparr>"
  let ?lg' = "lg\<lparr>slots := slots lg @ [Held ?v]\<rparr>"
  let ?k' = "k\<lparr>topics := (topics k)(?t \<mapsto> (Partitions k ?t)[nat ?p := ?lg'])\<rparr>"
  from lg have rng: "0 \<le> ?p" "?p < int (length (Partitions k ?t))"
    and lgeq: "Partitions k ?t ! nat ?p = lg"
    by (auto simp: lookup_partition_def split: if_splits)
  have sv: "snd (kafka_Save c cursor k) = ?k'"
    using nf lg rng by (simp add: kafka_Save_def Produce_to_def fails_def PartitionAny_def Let_def)
  have parts': "Partitions ?k' ?t = (Partitions k ?t)[nat ?p := ?lg']"
    by (simp add: Partitions_def)
  have lg': "lookup_partition ?k' ?t ?p = Some ?lg'"
    using rng by (simp add: lookup_partition_def parts')
  have nf': "failing ?k' = []" using nf by simp
  have wm: "QueryWatermarks ?k' ?t ?p = Inr (int (low lg), int (low lg) + int (length (slots lg)) + 1)"
    using lg' nf' by (simp add: QueryWatermarks_def fails_def)
  have poll: "Poll_at ?k' ?t ?p (int (low lg) + int (length (slots lg))) = kafka_Message ?v"
    using lg' nf' by (simp add: Poll_at_def fails_def nth_append)
  have sc: "scan ?k' c (int (low lg) + int (length (slots lg))) (int (low lg)) = Inr ?v"
    by (rule scan_newest) (simp_all add: fails_def nf' poll)
  from rng have ne: "length (Partitions ?k' ?t) \<noteq> 0" "\<not> int (length (Partitions ?k' ?t)) - 1 < ?p"
    by (auto simp: parts')
  have "fst (kafka_Load c ?k') = Inr ?v"
    unfolding kafka_Load_def using nf' ne by (simp add: fails_def wm sc Let_def)
  with sv show ?thesis by simp
qed

section \<open>Properties of the adapters\<close>

subsection \<open>The generic adapter: where a message comes from\<close>

lemma adapt_keys_Some:
  "adapt_keys build d keys = Inr (Some msg) \<Longrightarrow> \<exists>k\<in>set keys. build k = Inr msg"
  by (induction keys) (auto split: if_splits sum.splits)

lemma message_Inr:
  assumes "message co m blk rawStep step trx act ev ty kv k = Inr msg"
  shows "msg_Key msg = k \<and> msg_Value msg = JSON co ev \<and>
         ce_id_header m msg = Some \<lparr>Key = ''ce_id'', Value = hashString (lib co)
            (Id blk @ trx_Id trx @ decimal (unat (ExecutionIndex act)) @ rawStep @ k)\<rparr>"
  using assms
  by (auto simp: message_def ce_id_header_def Let_def nth_append split: sum.splits)

lemma adapt_action_Some:
  assumes "adapt_action co m blk rawStep step trx status correlation act = (ws, Inr (Some msg))"
  shows "\<exists>ev. describes ev blk trx act \<and> msg_Value msg = JSON co ev \<and>
           ce_id_header m msg = Some \<lparr>Key = ''ce_id'', Value = hashString (lib co)
             (Id blk @ trx_Id trx @ decimal (unat (ExecutionIndex act)) @ rawStep @ msg_Key msg)\<rparr>"
proof -
  from assms obtain a where a: "trace_Action act = Some a"
    by (auto simp: adapt_action_def split: option.splits)
  from assms a obtain ev ty kv keys where
      k: "adapt_keys (message co m blk rawStep step trx act ev ty kv) (\<lambda>k. False) keys = Inr (Some msg)"
    and d: "describes ev blk trx act"
    by (auto simp: adapt_action_def Let_def describes_def
        split: option.splits sum.splits prod.splits if_splits)
  from adapt_keys_Some[OF k] obtain key where
    "message co m blk rawStep step trx act ev ty kv key = Inr msg" by blast
  from message_Inr[OF this] d show ?thesis by auto
qed

lemma adapt_actions_Some:
  "adapt_actions co m blk rawStep step trx status correlation acts = (ws, Inr (Some msg)) \<Longrightarrow>
   \<exists>act\<in>set acts. FilteringMatched act \<and>
     (\<exists>ws'. adapt_action co m blk rawStep step trx status correlation act = (ws', Inr (Some msg)))"
proof (induction acts arbitrary: ws)
  case Nil
  then show ?case by simp
next
  case (Cons act acts)
  show ?case
  proof (cases "FilteringMatched act")
    case False
    with Cons show ?thesis by auto
  next
    case True
    obtain w r where ar: "adapt_action co m blk rawStep step trx status correlation act = (w, r)"
      by (cases "adapt_action co m blk rawStep step trx status correlation act")
    show ?thesis
    proof (cases r)
      case (Inl e)
      with Cons.prems True ar show ?thesis by simp
    next
      case (Inr o1)
      show ?thesis
      proof (cases o1)
        case (Some msg')
        with Cons.prems True ar Inr have "msg' = msg" by simp
        with True ar Inr Some show ?thesis by auto
      next
        case None
        with Cons.prems True ar Inr obtain ws2 where
          "adapt_actions co m blk rawStep step trx status correlation acts = (ws2, Inr (Some msg))"
          by (auto split: prod.splits)
        from Cons.IH[OF this] show ?thesis by auto
      qed
    qed
  qed
qed

lemma adapt_trxs_Some:
  "adapt_trxs co m blk rawStep step trxs = (ws, Inr (Some msg)) \<Longrightarrow>
   \<exists>trx\<in>set trxs. \<exists>act\<in>set (ActionTraces trx). FilteringMatched act \<and>
     (\<exists>ws' status correlation.
        adapt_action co m blk rawStep step trx status correlation act = (ws', Inr (Some msg)))"
proof (induction trxs arbitrary: ws)
  case Nil
  then show ?case by simp
next
  case (Cons trx trxs)
  from Cons.prems obtain receipt where rc: "trx_Receipt trx = Some receipt"
    by (auto split: option.splits)
  let ?status = "sanitizeStatus (Status_String (header_Status receipt))"
  from Cons.prems rc obtain correlation where co: "getCorrelation co (ActionTraces trx) = Inr correlation"
    by (auto simp: Let_def split: sum.splits)
  obtain w r where ar:
    "adapt_actions co m blk rawStep step trx ?status correlation (ActionTraces trx) = (w, r)"
    by (cases "adapt_actions co m blk rawStep step trx ?status correlation (ActionTraces trx)")
  show ?case
  proof (cases r)
    case (Inl e)
    with Cons.prems rc co ar show ?thesis by (simp add: Let_def)
  next
    case (Inr o1)
    show ?thesis
    proof (cases o1)
      case (Some msg')
      with Cons.prems rc co ar Inr have "msg' = msg" by (simp add: Let_def)
      with ar Inr Some adapt_actions_Some[of co m blk rawStep step trx ?status correlation "ActionTraces trx" w msg]
      show ?thesis by auto
    next
      case None
      with Cons.prems rc co ar Inr obtain ws2 where
        "adapt_trxs co m blk rawStep step trxs = (ws2, Inr (Some msg))"
        by (auto simp: Let_def split: prod.splits)
      from Cons.IH[OF this] show ?thesis by auto
    qed
  qed
qed

lemma adapt_Some:
  assumes "snd (adapt co m blk rawStep) = Inr (Some msg)"
  shows "\<exists>trx\<in>set (TransactionTraces blk). \<exists>act\<in>set (ActionTraces trx). FilteringMatched act \<and>
     (\<exists>ws' status correlation.
        adapt_action co m blk rawStep (sanitizeStep rawStep) trx status correlation act
          = (ws', Inr (Some msg)))"
proof -
  obtain ws where "adapt co m blk rawStep = (ws, Inr (Some msg))"
    using assms by (cases "adapt co m blk rawStep") simp
  then have "adapt_trxs co m blk rawStep (sanitizeStep rawStep) (TransactionTraces blk) = (ws, Inr (Some msg))"
    by (simp add: adapt_def Let_def)
  from adapt_trxs_Some[OF this] show ?thesis .
qed

lemma adapt_actions_unmatched:
  "\<forall>act\<in>set acts. \<not> FilteringMatched act \<Longrightarrow>
   adapt_actions co m blk rawStep step trx status correlation acts = ([], Inr None)"
  by (induction acts) auto

subsection \<open>The CloudEvents pipeline: where a sent event comes from\<close>

lemma send_keys_mem:
  "s \<in> set (fst (send_keys build keys)) \<Longrightarrow> \<exists>k\<in>set keys. build k = Inr s"
  by (induction keys arbitrary: s) (auto split: sum.splits prod.splits)

lemma Run_action_mem:
  assumes "s \<in> set (fst (Run_action p blk rawStep step trx status act))"
  shows "describes_data (ce_Data (Event s)) blk trx act"
proof -
  from assms obtain a receipt where a: "trace_Action act = Some a" "trace_Receipt act = Some receipt"
    by (auto simp: Run_action_def Let_def split: option.splits)
  from assms a obtain ev ty kv keys where
    k: "s \<in> set (fst (send_keys (cloud_event p blk rawStep step trx act ev ty kv) keys))"
    and d: "describes_data ev blk trx act"
    by (auto simp: Run_action_def Let_def describes_data_def split: sum.splits)
  from send_keys_mem[OF k] obtain key where "cloud_event p blk rawStep step trx act ev ty kv key = Inr s"
    by blast
  then have "ce_Data (Event s) = ev"
    by (auto simp: cloud_event_def Let_def split: sum.splits)
  with d show ?thesis by simp
qed

lemma Run_actions_mem:
  "s \<in> set (fst (Run_actions p blk rawStep step trx status acts)) \<Longrightarrow>
   \<exists>act\<in>set acts. FilteringMatched act \<and> s \<in> set (fst (Run_action p blk rawStep step trx status act))"
proof (induction acts)
  case Nil
  then show ?case by simp
next
  case (Cons act acts)
  show ?case
  proof (cases "FilteringMatched act")
    case False
    with Cons show ?thesis by auto
  next
    case True
    with Cons show ?thesis
      by (auto split: prod.splits option.splits)
  qed
qed

lemma Run_trxs_mem:
  "s \<in> set (fst (Run_trxs p blk rawStep step trxs)) \<Longrightarrow>
   \<exists>trx\<in>set trxs. \<exists>act\<in>set (ActionTraces trx). FilteringMatched act \<and>
      (\<exists>status. s \<in> set (fst (Run_action p blk rawStep step trx status act)))"
proof (induction trxs)
  case Nil
  then show ?case by simp
next
  case (Cons trx trxs)
  from Cons.prems obtain receipt where rc: "trx_Receipt trx = Some receipt"
    by (auto split: option.splits)
  let ?status = "sanitizeStatus (Status_String (header_Status receipt))"
  from Cons.prems rc have
    "s \<in> set (fst (Run_actions p blk rawStep step trx ?status (ActionTraces trx))) \<or>
     s \<in> set (fst (Run_trxs p blk rawStep step trxs))"
    by (auto simp: Let_def split: prod.splits option.splits)
  then show ?case
  proof
    assume "s \<in> set (fst (Run_actions p blk rawStep step trx ?status (ActionTraces trx)))"
    from Run_actions_mem[OF this] show ?thesis by auto
  next
    assume "s \<in> set (fst (Run_trxs p blk rawStep step trxs))"
    from Cons.IH[OF this] show ?thesis by auto
  qed
qed

lemma Run_actions_unmatched:
  "\<forall>act\<in>set acts. \<not> FilteringMatched act \<Longrightarrow>
   Run_actions p blk rawStep step trx status acts = ([], None)"
  by (induction acts) auto

subsection \<open>The row decoder fails: strict and lenient\<close>

lemma adapt_action_strict:
  assumes "trace_Action act = Some a"
    and "decodeDBOps m (DBOpsForAction trx (ExecutionIndex act)) (Number blk) = (d, Some e)"
    and "failOnUndecodableDBOP m"
  shows "adapt_action co m blk rawStep step trx status correlation act = ([], Inl e)"
  using assms by (simp add: adapt_action_def Let_def)

lemma message_decodeDBOps:
  "message co (m\<lparr>decodeDBOps := f\<rparr>) = message co m"
  by (intro ext) (simp add: message_def split: sum.splits)

lemma adapt_action_lenient:
  assumes "trace_Action act = Some a"
    and "decodeDBOps m (DBOpsForAction trx (ExecutionIndex act)) (Number blk) = (d, Some e)"
    and "\<not> failOnUndecodableDBOP m"
  shows "adapt_action co m blk rawStep step trx status correlation act =
     (''cannot decode dbops'' #
        fst (adapt_action co (m\<lparr>decodeDBOps := (\<lambda>ops n. (d, None))\<rparr>) blk rawStep step trx
               status correlation act),
      snd (adapt_action co (m\<lparr>decodeDBOps := (\<lambda>ops n. (d, None))\<rparr>) blk rawStep step trx
             status correlation act))"
  using assms
  by (simp add: adapt_action_def Let_def message_decodeDBOps split: sum.splits)

subsection \<open>Evaluations on the concrete inputs\<close>

lemma eval_blk100: "snd (adapt co0 m0 blk100 ''STEP_NEW'') = Inr (Some msg_a)"
  by code_simp

lemma eval_unmatched:
  "\<forall>trx\<in>set (TransactionTraces blk_unmatched). \<forall>act\<in>set (ActionTraces trx). \<not> FilteringMatched act"
  by (simp add: blk_unmatched_def trx_unmatched_def)

lemma eval_blk1: "length (fst (Run_block p0 blk1 ''STEP_NEW'')) = 3"
  by code_simp




lemma eval_adapt_action_act0:
  "adapt_action co0 m0 blk100 ''STEP_NEW'' ''NEW'' trx0 ''EXECUTED'' '''' act0 = ([], Inr (Some msg_a))"
  by code_simp

lemma eval_act0_conditions:
  "trace_Receipt act0 = None \<and> trace_Action act0 = Some create \<and>
    decodeDBOps m0 (DBOpsForAction trx0 (ExecutionIndex act0)) (Number blk100) = ([], None) \<and>
    NewActivation co0 ''NEW'' trx0 act0 [] = Inr act0 \<and>
    evalString (eventTypeProg m0) act0 = Inr ''Created'' \<and>
    eval_extensions (extensions m0) act0 [] = Inr [] \<and>
    evalStringArray (eventKeyProg m0) act0 = Inr (''a'' # [''a'', ''b'']) \<and>
    Timestamp blk100 = Some 0"
  by code_simp

subsection \<open>An action without a receipt\<close>

text \<open>
  The body of the loop over the actions does not skip a matched action without a
  receipt and does not fail on the missing receipt: whatever message it returns
  for the action carries the event of that action with the global sequence number
  \<open>0\<close>; and when the row decoder, the activation and the three evaluations succeed,
  the keys are not empty and the block has a time, it returns a message, keyed by
  the first key.
\<close>

lemma adapt_action_nil_receipt:
  "(trace_Receipt act = None \<and>
    adapt_action co m blk rawStep step trx status correlation act = (ws, Inr (Some msg)) \<longrightarrow>
      (\<exists>ev. msg_Value msg = JSON co ev \<and> describes ev blk trx act \<and>
            GlobalSequence (ActionInfo ev) = 0)) \<and>
   (trace_Receipt act' = None \<and> trace_Action act' = Some a \<and>
    decodeDBOps m (DBOpsForAction trx (ExecutionIndex act')) (Number blk) = (d, None) \<and>
    NewActivation co step trx act' d = Inr activation \<and>
    evalString (eventTypeProg m) activation = Inr eventType \<and>
    eval_extensions (extensions m) activation [] = Inr extensionsKV \<and>
    evalStringArray (eventKeyProg m) activation = Inr (k # ks) \<and>
    Timestamp blk = Some t \<longrightarrow>
      (\<exists>msg' ev. adapt_action co m blk rawStep step trx status correlation act' = ([], Inr (Some msg')) \<and>
          msg_Key msg' = k \<and> msg_Value msg' = JSON co ev \<and> describes ev blk trx act' \<and>
          GlobalSequence (ActionInfo ev) = 0))"
proof (intro conjI impI)
  assume h: "trace_Receipt act = None \<and>
    adapt_action co m blk rawStep step trx status correlation act = (ws, Inr (Some msg))"
  then have "adapt_action co m blk rawStep step trx status correlation act = (ws, Inr (Some msg))"
    by simp
  from adapt_action_Some[OF this] obtain ev where
    "describes ev blk trx act" "msg_Value msg = JSON co ev" by blast
  moreover from this(1) h have "GlobalSequence (ActionInfo ev) = 0"
    by (auto simp: describes_def split: option.splits)
  ultimately show "\<exists>ev. msg_Value msg = JSON co ev \<and> describes ev blk trx act \<and>
            GlobalSequence (ActionInfo ev) = 0"
    by blast
next
  assume h: "trace_Receipt act' = None \<and> trace_Action act' = Some a \<and>
    decodeDBOps m (DBOpsForAction trx (ExecutionIndex act')) (Number blk) = (d, None) \<and>
    NewActivation co step trx act' d = Inr activation \<and>
    evalString (eventTypeProg m) activation = Inr eventType \<and>
    eval_extensions (extensions m) activation [] = Inr extensionsKV \<and>
    evalStringArray (eventKeyProg m) activation = Inr (k # ks) \<and>
    Timestamp blk = Some t"
  then obtain msg' where
    "adapt_action co m blk rawStep step trx status correlation act' = ([], Inr (Some msg'))"
    "msg_Key msg' = k"
    by (simp add: adapt_action_def Let_def message_def MustTime_def)
  moreover from adapt_action_Some[OF this(1)] obtain ev where
    "describes ev blk trx act'" "msg_Value msg' = JSON co ev" by blast
  moreover from this(1) h have "GlobalSequence (ActionInfo ev) = 0"
    by (auto simp: describes_def split: option.splits)
  ultimately show "\<exists>msg' ev. adapt_action co m blk rawStep step trx status correlation act' = ([], Inr (Some msg')) \<and>
          msg_Key msg' = k \<and> msg_Value msg' = JSON co ev \<and> describes ev blk trx act' \<and>
          GlobalSequence (ActionInfo ev) = 0"
    by blast
qed

section \<open>Properties of the loop of \<open>Run\<close>\<close>

lemma send_all_ok:
  "\<forall>m\<in>set ms. \<not> send_fails (the_sink a) m \<Longrightarrow>
   send_all a st ms =
     (None, st\<lparr>trace := trace st @ map Send_call ms,
              snd_state := (snd_state st)\<lparr>published := published (snd_state st) @ ms\<rparr>\<rparr>)"
proof (induction ms arbitrary: st)
  case Nil
  then show ?case by simp
next
  case (Cons m ms)
  then show ?case by (simp add: Send_def)
qed

lemma Run_loop_commits:
  assumes "recv t = Inr msg" "resp_Block msg = Some blk"
    and "Adapt a blk (resp_Step msg) = Inr ms"
    and "\<forall>m\<in>set ms. \<not> send_fails (the_sink a) m"
    and "\<not> IsTerminating t"
    and "\<not> save_fails (the_sink a) (resp_Cursor msg)"
  shows "Run_loop a st (t # ts) =
     Run_loop a
       (st\<lparr>trace := trace st @ [Recv] @ map Send_call ms
                @ [CommitIfAfter_call (resp_Cursor msg) (CommitMinDelay a)],
           snd_state :=
             (if now t - lastCommit (snd_state st) > CommitMinDelay a
              then (snd_state st)\<lparr>published := published (snd_state st) @ ms,
                     checkpoints := checkpoints (snd_state st) @ [resp_Cursor msg],
                     lastCommit := now t\<rparr>
              else (snd_state st)\<lparr>published := published (snd_state st) @ ms\<rparr>)\<rparr>) ts"
  using assms
  by (simp add: Run_loop.simps(2) send_all_ok CommitIfAfter_def Commit_def Let_def)

lemma Run_loop_terminating:
  assumes "recv t = Inr msg" "resp_Block msg = Some blk"
    and "Adapt a blk (resp_Step msg) = Inr ms"
    and "\<forall>m\<in>set ms. \<not> send_fails (the_sink a) m"
    and "IsTerminating t"
  shows "Run_loop a st (t # ts) =
     (if save_fails (the_sink a) (resp_Cursor msg) then Some (Failure ''save'') else None,
      st\<lparr>trace := trace st @ [Recv] @ map Send_call ms @ [Commit_call (resp_Cursor msg)],
         snd_state :=
           (if save_fails (the_sink a) (resp_Cursor msg)
            then (snd_state st)\<lparr>published := published (snd_state st) @ ms\<rparr>
            else (snd_state st)\<lparr>published := published (snd_state st) @ ms,
                   checkpoints := checkpoints (snd_state st) @ [resp_Cursor msg],
                   lastCommit := now t\<rparr>)\<rparr>)"
  using assms
  by (simp add: Run_loop.simps(2) send_all_ok Commit_def Let_def)

lemma eval_turn:
  "recv (turn_at c b n) = Inr \<lparr>resp_Cursor = c, resp_Step = ''STEP_NEW'', resp_Block = Some blk100\<rparr> \<and>
   IsTerminating (turn_at c b n) = b \<and> now (turn_at c b n) = n"
  by (simp add: turn_at_def)

lemma eval_app0:
  "Adapt app0 blk step = Inr [msg_a] \<and> CommitMinDelay app0 = 30000000000 \<and>
   \<not> send_fails (the_sink app0) m \<and> \<not> save_fails (the_sink app0) c"
  by (simp add: app0_def)

section \<open>Properties of the declared event\<close>

text \<open>
  For an event whose \<open>json_data\<close> is nil or valid JSON, \<open>JSON()\<close> returns a JSON object
  with exactly the fields \<open>block_num\<close>, \<open>block_id\<close>, \<open>status\<close>, \<open>block_step\<close>, \<open>trx_id\<close>
  and \<open>act_info\<close>, and \<open>act_info\<close> is an object with exactly the fields \<open>account\<close>,
  \<open>receiver\<close>, \<open>action\<close>, \<open>global_seq\<close>, \<open>authorizations\<close> and \<open>json_data\<close>.
\<close>

lemma declared_event_fields:
  "(case ActionInfo.JSONData (event.ActionInfo e) of
      None \<Rightarrow> True
    | Some raw \<Rightarrow> json_Valid lb raw) \<longrightarrow>
   (\<exists>d ai. event_JSON lb e = Some d \<and> is_object d \<and>
      field_names d = [''block_num'', ''block_id'', ''status'', ''block_step'', ''trx_id'', ''act_info''] \<and>
      field_value d ''act_info'' = Some ai \<and> is_object ai \<and>
      field_names ai = [''account'', ''receiver'', ''action'', ''global_seq'', ''authorizations'',
                   ''json_data''])"
  by (auto simp: event_JSON_def Marshal_event_def Marshal_ActionInfo_def is_object_def field_names_def
      field_value_def split: option.splits)

section \<open>Claims about the checkpoint store\<close>

text \<open>
  C3, on the Kafka-backed checkpointer. \<open>Save\<close> writes the JSON record
  \<open>{"cursor":"abc"}\<close> to the cursor partition, and \<open>Load\<close> on a checkpointer over the
  same broker returns the value of that message as it is: the text of the record,
  not the cursor \<open>abc\<close> that was saved. (The file-backed checkpointer does return
  the cursor: \<open>file_Save_Load\<close>.)
\<close>

theorem kafka_Save_then_Load_abc:
  "fst (kafka_Save ck0 ''abc'' broker_empty_topic) = None \<and>
   fst (kafka_Load ck0 (snd (kafka_Save ck0 ''abc'' broker_empty_topic)))
     = Inr (''{'' @ [dquote] @ ''cursor'' @ [dquote] @ '':'' @ [dquote] @ ''abc'' @ [dquote] @ ''}'') \<and>
   fst (kafka_Load ck0 (snd (kafka_Save ck0 ''abc'' broker_empty_topic))) \<noteq> Inr ''abc''"
  by code_simp

text \<open>
  C4, as the claim states it, fails when the broker does not have the cursor topic
  and the checkpointer is configured with a cursor partition that is not among
  the ten that \<open>Load\<close> creates. With the partition 10 and every call to the client
  succeeding, \<open>Load\<close> creates the topic (10 partitions, replication factor 1 on one
  broker), then asks for the watermarks of partition 10 of the new topic, and
  returns the error of that call wrapped as "getting low/high", not \<open>NoCursorErr\<close>.
\<close>

theorem Load_absent_topic_partition_10:
  "topics broker_without_topic (kafkaCheckpointer.topic ck10) = None \<and>
   failing broker_without_topic = [] \<and>
   sint (partition ck10) = 10 \<and>
   fst (kafka_Load ck10 broker_without_topic)
     = Inl (Wrapped ''getting low/high'' (Failure ''unknown partition'')) \<and>
   fst (kafka_Load ck10 broker_without_topic) \<noteq> Inl NoCursorErr \<and>
   created (snd (kafka_Load ck10 broker_without_topic))
     = [\<lparr>Topic = ''cursors'', NumPartitions = 10, ReplicationFactor = 1\<rparr>]"
  by code_simp

text \<open>
  C4, amended: \<open>Load\<close> on a store without a checkpoint returns \<open>NoCursorErr\<close>.
  \<^item> The file-backed checkpointer, when its file does not exist.
  \<^item> The Kafka-backed checkpointer, when the broker does not have the cursor topic
    and the configured cursor partition is one of the partitions 0 to 9: \<open>Load\<close>
    first creates the topic with 10 partitions and with the replication factor
    \<open>min 3 (number of brokers)\<close>, then finds the new partition empty.
  \<^item> The Kafka-backed checkpointer, when no offset between the watermarks of the
    cursor partition gives a message (an empty partition among them).
  For the two Kafka cases the calls to the client succeed (\<open>failing\<close> is empty);
  otherwise \<open>Load\<close> returns the error of the call that failed.
\<close>

theorem Load_cold_start:
  "(entries fs (filename fc) = None \<longrightarrow> file_Load fc fs = Inl NoCursorErr) \<and>
   (topics k (kafkaCheckpointer.topic c) = None \<and> failing k = [] \<and>
      0 \<le> sint (partition c) \<and> sint (partition c) < 10 \<longrightarrow>
      fst (kafka_Load c k) = Inl NoCursorErr \<and>
      created (snd (kafka_Load c k)) = created k @
        [\<lparr>Topic = kafkaCheckpointer.topic c, NumPartitions = 10,
          ReplicationFactor = min 3 (int (brokers k))\<rparr>] \<and>
      topics (snd (kafka_Load c k)) (kafkaCheckpointer.topic c)
        = Some (replicate 10 \<lparr>low = 0, slots = []\<rparr>)) \<and>
   (lookup_partition k' (kafkaCheckpointer.topic c') (sint (partition c')) = Some lg \<and>
      (\<forall>s\<in>set (slots lg). s = Vacant) \<and> failing k' = [] \<longrightarrow>
      kafka_Load c' k' = (Inl NoCursorErr, k'))"
proof (intro conjI impI)
  assume "entries fs (filename fc) = None"
  then show "file_Load fc fs = Inl NoCursorErr" by (rule file_Load_missing)
next
  assume h: "topics k (kafkaCheckpointer.topic c) = None \<and> failing k = [] \<and>
      0 \<le> sint (partition c) \<and> sint (partition c) < 10"
  then have l: "kafka_Load c k =
     (Inl NoCursorErr,
      k\<lparr>topics := (topics k)(kafkaCheckpointer.topic c \<mapsto> replicate 10 \<lparr>low = 0, slots = []\<rparr>),
        created := created k @
          [\<lparr>Topic = kafkaCheckpointer.topic c, NumPartitions = 10,
            ReplicationFactor = min 3 (int (brokers k))\<rparr>]\<rparr>)"
    by (intro kafka_Load_topic_absent) auto
  show "fst (kafka_Load c k) = Inl NoCursorErr" by (simp add: l)
  show "created (snd (kafka_Load c k)) = created k @
        [\<lparr>Topic = kafkaCheckpointer.topic c, NumPartitions = 10,
          ReplicationFactor = min 3 (int (brokers k))\<rparr>]"
    by (simp add: l)
  show "topics (snd (kafka_Load c k)) (kafkaCheckpointer.topic c)
      = Some (replicate 10 \<lparr>low = 0, slots = []\<rparr>)"
    by (simp add: l)
next
  assume "lookup_partition k' (kafkaCheckpointer.topic c') (sint (partition c')) = Some lg \<and>
      (\<forall>s\<in>set (slots lg). s = Vacant) \<and> failing k' = []"
  then show "kafka_Load c' k' = (Inl NoCursorErr, k')"
    by (intro kafka_Load_no_message[of k' c' lg]) auto
qed

theorem Load_cold_start_witness:
  "file_Load fc0 fs0 = Inl NoCursorErr \<and>
   fst (kafka_Load ck0 broker_without_topic) = Inl NoCursorErr \<and>
   created (snd (kafka_Load ck0 broker_without_topic)) =
     [\<lparr>Topic = ''cursors'', NumPartitions = 10, ReplicationFactor = 1\<rparr>] \<and>
   kafka_Load ck0 broker_vacant_topic = (Inl NoCursorErr, broker_vacant_topic)"
proof -
  have a: "entries fs0 (filename fc0) = None" by (simp add: fs0_def)
  have b: "topics broker_without_topic (kafkaCheckpointer.topic ck0) = None \<and>
      failing broker_without_topic = [] \<and>
      0 \<le> sint (partition ck0) \<and> sint (partition ck0) < 10"
    by (simp add: broker_without_topic_def ck0_def newKafkaCheckpointer_def)
  have c: "lookup_partition broker_vacant_topic (kafkaCheckpointer.topic ck0) (sint (partition ck0))
             = Some \<lparr>low = 5, slots = [Vacant, Vacant]\<rparr> \<and>
      (\<forall>s\<in>set (slots \<lparr>low = 5, slots = [Vacant, Vacant]\<rparr>). s = Vacant) \<and>
      failing broker_vacant_topic = []"
    by (simp add: broker_vacant_topic_def ck0_def newKafkaCheckpointer_def
        lookup_partition_def Partitions_def)
  from Load_cold_start[of fs0 fc0 broker_without_topic ck0 broker_vacant_topic ck0
      "\<lparr>low = 5, slots = [Vacant, Vacant]\<rparr>"] a b c
  show ?thesis
    by (simp add: broker_without_topic_def ck0_def newKafkaCheckpointer_def)
qed

section \<open>Claims about the adapters\<close>

text \<open>
  C1, on the scenario of the spec: block #100 with one matched action, the event
  type \<open>Created\<close> and the event keys \<open>a\<close>, \<open>a\<close>, \<open>b\<close>. The adapter returns one
  message, keyed \<open>a\<close>, and none keyed \<open>b\<close>: the loop over the keys returns at the
  first key that \<open>dedupeMap\<close> does not hold.
\<close>

theorem adapt_duplicate_keys_one_message:
  "evalString (eventTypeProg m0) act0 = Inr ''Created'' \<and>
   evalStringArray (eventKeyProg m0) act0 = Inr [''a'', ''a'', ''b''] \<and>
   adapt co0 m0 blk100 ''STEP_NEW'' = ([], Inr (Some msg_a)) \<and>
   msg_Key msg_a = ''a''"
  by code_simp

text \<open>
  C2: an event is emitted only for an action that the filter matched.
  \<^item> The message that \<open>adapt\<close> returns for a block carries the event of one action
    of one transaction of the block, and that action is matched.
  \<^item> For a block in which no action is matched, \<open>adapt\<close> returns no message and the
    CloudEvents loop sends nothing.
  \<^item> Every event the CloudEvents loop sends for a block carries the data of a
    matched action of the block.
\<close>

theorem events_only_for_matched_actions:
  "(snd (adapt co m blk rawStep) = Inr (Some msg) \<longrightarrow>
      (\<exists>trx\<in>set (TransactionTraces blk). \<exists>act\<in>set (ActionTraces trx).
         FilteringMatched act \<and> (\<exists>ev. msg_Value msg = JSON co ev \<and> describes ev blk trx act))) \<and>
   ((\<forall>trx\<in>set (TransactionTraces blk'). \<forall>act\<in>set (ActionTraces trx). \<not> FilteringMatched act) \<longrightarrow>
      (\<forall>msg'. snd (adapt co m blk' rawStep) \<noteq> Inr (Some msg')) \<and>
      fst (Run_block p blk' rawStep) = []) \<and>
   (\<forall>s\<in>set (fst (Run_block p blk'' rawStep)).
      \<exists>trx\<in>set (TransactionTraces blk''). \<exists>act\<in>set (ActionTraces trx).
         FilteringMatched act \<and> describes_data (ce_Data (Event s)) blk'' trx act)"
proof (intro conjI impI ballI allI)
  assume "snd (adapt co m blk rawStep) = Inr (Some msg)"
  from adapt_Some[OF this] obtain trx act ws status correlation where
    m: "trx \<in> set (TransactionTraces blk)" "act \<in> set (ActionTraces trx)" "FilteringMatched act"
    and a: "adapt_action co m blk rawStep (sanitizeStep rawStep) trx status correlation act
              = (ws, Inr (Some msg))"
    by blast
  from adapt_action_Some[OF a] m
  show "\<exists>trx\<in>set (TransactionTraces blk). \<exists>act\<in>set (ActionTraces trx).
         FilteringMatched act \<and> (\<exists>ev. msg_Value msg = JSON co ev \<and> describes ev blk trx act)"
    by blast
next
  fix msg'
  assume un: "\<forall>trx\<in>set (TransactionTraces blk'). \<forall>act\<in>set (ActionTraces trx). \<not> FilteringMatched act"
  show "snd (adapt co m blk' rawStep) \<noteq> Inr (Some msg')"
  proof
    assume "snd (adapt co m blk' rawStep) = Inr (Some msg')"
    from adapt_Some[OF this] un show False by blast
  qed
next
  assume un: "\<forall>trx\<in>set (TransactionTraces blk'). \<forall>act\<in>set (ActionTraces trx). \<not> FilteringMatched act"
  show "fst (Run_block p blk' rawStep) = []"
  proof (rule ccontr)
    assume "fst (Run_block p blk' rawStep) \<noteq> []"
    then obtain s where "s \<in> set (fst (Run_block p blk' rawStep))"
      by (cases "fst (Run_block p blk' rawStep)") auto
    then have "s \<in> set (fst (Run_trxs p blk' rawStep (sanitizeStep rawStep) (TransactionTraces blk')))"
      by (simp add: Run_block_def Let_def)
    from Run_trxs_mem[OF this] un show False by blast
  qed
next
  fix s
  assume "s \<in> set (fst (Run_block p blk'' rawStep))"
  then have "s \<in> set (fst (Run_trxs p blk'' rawStep (sanitizeStep rawStep) (TransactionTraces blk'')))"
    by (simp add: Run_block_def Let_def)
  from Run_trxs_mem[OF this] obtain trx act status where
    m: "trx \<in> set (TransactionTraces blk'')" "act \<in> set (ActionTraces trx)" "FilteringMatched act"
    and a: "s \<in> set (fst (Run_action p blk'' rawStep (sanitizeStep rawStep) trx status act))"
    by blast
  from Run_action_mem[OF a] m
  show "\<exists>trx\<in>set (TransactionTraces blk''). \<exists>act\<in>set (ActionTraces trx).
         FilteringMatched act \<and> describes_data (ce_Data (Event s)) blk'' trx act"
    by blast
qed

theorem events_only_for_matched_actions_witness:
  "snd (adapt co0 m0 blk100 ''STEP_NEW'') = Inr (Some msg_a) \<and>
   (\<exists>trx\<in>set (TransactionTraces blk100). \<exists>act\<in>set (ActionTraces trx).
      FilteringMatched act \<and> (\<exists>ev. msg_Value msg_a = JSON co0 ev \<and> describes ev blk100 trx act)) \<and>
   snd (adapt co0 m0 blk_unmatched ''STEP_NEW'') \<noteq> Inr (Some msg_a) \<and>
   fst (Run_block p0 blk_unmatched ''STEP_NEW'') = [] \<and>
   length (fst (Run_block p0 blk1 ''STEP_NEW'')) = 3 \<and>
   (\<exists>trx\<in>set (TransactionTraces blk1). \<exists>act\<in>set (ActionTraces trx).
      FilteringMatched act \<and>
      describes_data (ce_Data (Event (hd (fst (Run_block p0 blk1 ''STEP_NEW''))))) blk1 trx act)"
proof -
  have "hd (fst (Run_block p0 blk1 ''STEP_NEW'')) \<in> set (fst (Run_block p0 blk1 ''STEP_NEW''))"
    using eval_blk1 by (cases "fst (Run_block p0 blk1 ''STEP_NEW'')") auto
  with events_only_for_matched_actions[of co0 m0 blk100 "''STEP_NEW''" msg_a blk_unmatched p0 blk1]
    eval_blk100 eval_unmatched eval_blk1
  show ?thesis by blast
qed

text \<open>
  C5, on a block whose first matched action has the key \<open>a\<close> and whose second
  matched action has a row mutation that the decoder cannot decode, with strict
  decoding enabled: \<open>adapt\<close> returns the message of the first action and no error;
  it never reaches the second action. (On the action itself the policy is the one
  the claim states: \<open>adapt_action_strict\<close> and \<open>adapt_action_lenient\<close>.)
\<close>

theorem adapt_strict_undecodable_second_action:
  "failOnUndecodableDBOP m_strict \<and>
   FilteringMatched act1 \<and> act1 \<in> set (ActionTraces trx2) \<and> trx2 \<in> set (TransactionTraces blk2) \<and>
   decodeDBOps m_strict (DBOpsForAction trx2 (ExecutionIndex act1)) (Number blk2)
     = ([], Some (Failure ''undecodable'')) \<and>
   adapt co0 m_strict blk2 ''STEP_NEW'' = ([], Inr (Some msg_a))"
  by code_simp



text \<open>
  C10, on a block whose first matched action has a receipt and whose second
  matched action has none. On its own the second action would give the message
  keyed \<open>a\<close> with the global sequence number \<open>0\<close>; \<open>adapt\<close> returns the message of the
  first action (global sequence number 7) and never processes the second: the loop
  over the keys of the first action returns at its first message. (On the action
  itself the missing receipt is handled as the claim states:
  \<open>adapt_action_nil_receipt\<close>.)
\<close>

theorem adapt_nil_receipt_second_action:
  "trace_Receipt act0 = None \<and> FilteringMatched act0 \<and>
   act0 \<in> set (ActionTraces trx3) \<and> trx3 \<in> set (TransactionTraces blk3) \<and>
   adapt_action co0 m0 blk3 ''STEP_NEW'' ''NEW'' trx3 ''EXECUTED'' [] act0
     = ([], Inr (Some msg_a)) \<and>
   msg_Value msg_a = ''b100/t1/create/0'' \<and>
   adapt co0 m0 blk3 ''STEP_NEW'' = ([], Inr (Some msg_7)) \<and>
   msg_Value msg_7 = ''b100/t1/create/7'' \<and>
   msg_7 \<noteq> msg_a"
  by code_simp

section \<open>Claims about the wire format\<close>


section \<open>Claims about the delivery loop\<close>

text \<open>
  C6: the forced commit. In a turn of the loop in which the block is received,
  decoded and adapted, every message is published, and \<open>IsTerminating\<close> then
  holds, the loop calls \<open>Commit\<close> with the cursor of the turn, once, and returns the
  result of that call: the calls of the turn are \<open>Recv\<close>, one \<open>Send\<close> for each message
  and one \<open>Commit\<close>, no \<open>CommitIfAfter\<close>; the turns that follow in the stream are not
  touched (no further \<open>Recv\<close>). The cursor is written to the checkpoint store unless the
  write itself fails, whatever the clock, the time of the last commit and the
  configured minimum delay are.
\<close>

theorem forced_commit_on_termination:
  "recv t = Inr msg \<and> resp_Block msg = Some blk \<and> Adapt a blk (resp_Step msg) = Inr ms \<and>
   (\<forall>m\<in>set ms. \<not> send_fails (the_sink a) m) \<and> IsTerminating t \<longrightarrow>
     trace (snd (Run_loop a st (t # ts))) =
       trace st @ [Recv] @ map Send_call ms @ [Commit_call (resp_Cursor msg)] \<and>
     Run_loop a st (t # ts) = Run_loop a st [t] \<and>
     (if save_fails (the_sink a) (resp_Cursor msg)
      then fst (Run_loop a st (t # ts)) = Some (Failure ''save'') \<and>
           checkpoints (snd_state (snd (Run_loop a st (t # ts)))) = checkpoints (snd_state st)
      else fst (Run_loop a st (t # ts)) = None \<and>
           checkpoints (snd_state (snd (Run_loop a st (t # ts))))
             = checkpoints (snd_state st) @ [resp_Cursor msg])"
proof (intro impI)
  assume h: "recv t = Inr msg \<and> resp_Block msg = Some blk \<and> Adapt a blk (resp_Step msg) = Inr ms \<and>
   (\<forall>m\<in>set ms. \<not> send_fails (the_sink a) m) \<and> IsTerminating t"
  then have r: "recv t = Inr msg" "resp_Block msg = Some blk" "Adapt a blk (resp_Step msg) = Inr ms"
    "\<forall>m\<in>set ms. \<not> send_fails (the_sink a) m" "IsTerminating t"
    by simp_all
  note l = Run_loop_terminating[OF r]
  show "trace (snd (Run_loop a st (t # ts))) =
       trace st @ [Recv] @ map Send_call ms @ [Commit_call (resp_Cursor msg)] \<and>
     Run_loop a st (t # ts) = Run_loop a st [t] \<and>
     (if save_fails (the_sink a) (resp_Cursor msg)
      then fst (Run_loop a st (t # ts)) = Some (Failure ''save'') \<and>
           checkpoints (snd_state (snd (Run_loop a st (t # ts)))) = checkpoints (snd_state st)
      else fst (Run_loop a st (t # ts)) = None \<and>
           checkpoints (snd_state (snd (Run_loop a st (t # ts))))
             = checkpoints (snd_state st) @ [resp_Cursor msg])"
    by (simp add: l[of st ts] l[of st "[]"])
qed

theorem forced_commit_on_termination_witness:
  "IsTerminating (turn_at ''c1'' True 1) \<and>
   \<not> now (turn_at ''c1'' True 1) - lastCommit (snd_state st0) > CommitMinDelay app0 \<and>
   trace (snd (Run_loop app0 st0 [turn_at ''c1'' True 1, turn_at ''c2'' False 2])) =
     [Recv, Send_call msg_a, Commit_call ''c1''] \<and>
   fst (Run_loop app0 st0 [turn_at ''c1'' True 1, turn_at ''c2'' False 2]) = None \<and>
   checkpoints (snd_state (snd (Run_loop app0 st0 [turn_at ''c1'' True 1, turn_at ''c2'' False 2])))
     = [''c1'']"
proof -
  let ?r = "\<lparr>resp_Cursor = ''c1'', resp_Step = ''STEP_NEW'', resp_Block = Some blk100\<rparr>"
  have w: "\<not> now (turn_at ''c1'' True 1) - lastCommit (snd_state st0) > CommitMinDelay app0"
    by (simp add: eval_turn eval_app0 st0_def)
  have h: "recv (turn_at ''c1'' True 1) = Inr ?r \<and> resp_Block ?r = Some blk100 \<and>
      Adapt app0 blk100 (resp_Step ?r) = Inr [msg_a] \<and>
      (\<forall>m\<in>set [msg_a]. \<not> send_fails (the_sink app0) m) \<and> IsTerminating (turn_at ''c1'' True 1)"
    by (simp add: eval_turn eval_app0)
  note c = forced_commit_on_termination[of "turn_at ''c1'' True 1" ?r blk100 app0 "[msg_a]" st0
      "[turn_at ''c2'' False 2]", THEN mp, OF h]
  have s: "\<not> save_fails (the_sink app0) (resp_Cursor ?r)" by (simp add: eval_app0)
  from c[THEN conjunct1] c[THEN conjunct2, THEN conjunct2] s w h
  show ?thesis by (simp add: st0_def)
qed

text \<open>
  C7: commit-if-after, on the sender modelled from the spec. When the write does
  not fail, \<open>CommitIfAfter\<close> appends the cursor to the checkpoints if and only if the
  time since the last successful checkpoint exceeds the minimum delay, and leaves
  them as they are otherwise. For two turns of the loop that are not terminating
  and in which nothing fails, the first of which comes more than the delay after
  the last checkpoint: when the second comes more than the delay after the first,
  both cursors are written; otherwise only the first.
\<close>

theorem commit_if_after_min_delay:
  "(\<not> save_fails sk cursor \<longrightarrow>
      ((checkpoints (snd (CommitIfAfter sk t cursor D s)) = checkpoints s @ [cursor])
         = (t - lastCommit s > D)) \<and>
      ((checkpoints (snd (CommitIfAfter sk t cursor D s)) = checkpoints s)
         = (\<not> t - lastCommit s > D))) \<and>
   (recv t1 = Inr r1 \<and> resp_Block r1 = Some b1 \<and> Adapt a b1 (resp_Step r1) = Inr ms1 \<and>
    recv t2 = Inr r2 \<and> resp_Block r2 = Some b2 \<and> Adapt a b2 (resp_Step r2) = Inr ms2 \<and>
    (\<forall>m. \<not> send_fails (the_sink a) m) \<and> (\<forall>c. \<not> save_fails (the_sink a) c) \<and>
    \<not> IsTerminating t1 \<and> \<not> IsTerminating t2 \<and>
    now t1 - lastCommit (snd_state st) > CommitMinDelay a \<longrightarrow>
      checkpoints (snd_state (snd (Run_loop a st [t1, t2]))) =
        checkpoints (snd_state st) @
          (if now t2 - now t1 > CommitMinDelay a then [resp_Cursor r1, resp_Cursor r2]
           else [resp_Cursor r1]))"
proof (intro conjI impI)
  assume "\<not> save_fails sk cursor"
  then show "(checkpoints (snd (CommitIfAfter sk t cursor D s)) = checkpoints s @ [cursor])
         = (t - lastCommit s > D)"
    by (simp add: CommitIfAfter_def Commit_def)
next
  assume "\<not> save_fails sk cursor"
  then show "(checkpoints (snd (CommitIfAfter sk t cursor D s)) = checkpoints s)
         = (\<not> t - lastCommit s > D)"
    by (simp add: CommitIfAfter_def Commit_def)
next
  assume h: "recv t1 = Inr r1 \<and> resp_Block r1 = Some b1 \<and> Adapt a b1 (resp_Step r1) = Inr ms1 \<and>
    recv t2 = Inr r2 \<and> resp_Block r2 = Some b2 \<and> Adapt a b2 (resp_Step r2) = Inr ms2 \<and>
    (\<forall>m. \<not> send_fails (the_sink a) m) \<and> (\<forall>c. \<not> save_fails (the_sink a) c) \<and>
    \<not> IsTerminating t1 \<and> \<not> IsTerminating t2 \<and>
    now t1 - lastCommit (snd_state st) > CommitMinDelay a"
  then have c1: "recv t1 = Inr r1" "resp_Block r1 = Some b1" "Adapt a b1 (resp_Step r1) = Inr ms1"
      "\<forall>m\<in>set ms1. \<not> send_fails (the_sink a) m" "\<not> IsTerminating t1"
      "\<not> save_fails (the_sink a) (resp_Cursor r1)"
    and c2: "recv t2 = Inr r2" "resp_Block r2 = Some b2" "Adapt a b2 (resp_Step r2) = Inr ms2"
      "\<forall>m\<in>set ms2. \<not> send_fails (the_sink a) m" "\<not> IsTerminating t2"
      "\<not> save_fails (the_sink a) (resp_Cursor r2)"
    and d: "now t1 - lastCommit (snd_state st) > CommitMinDelay a"
    by simp_all
  show "checkpoints (snd_state (snd (Run_loop a st [t1, t2]))) =
        checkpoints (snd_state st) @
          (if now t2 - now t1 > CommitMinDelay a then [resp_Cursor r1, resp_Cursor r2]
           else [resp_Cursor r1])"
    using d by (simp add: Run_loop_commits[OF c1] Run_loop_commits[OF c2])
qed

theorem commit_if_after_min_delay_witness:
  "checkpoints (snd_state (snd (Run_loop app0 st0
      [turn_at ''c1'' False 31000000000, turn_at ''c2'' False 32000000000]))) = [''c1''] \<and>
   checkpoints (snd_state (snd (Run_loop app0 st0
      [turn_at ''c1'' False 31000000000, turn_at ''c2'' False 62000000000]))) = [''c1'', ''c2''] \<and>
   checkpoints (snd (CommitIfAfter (the_sink app0) 31000000000 ''c1'' 30000000000 (snd_state st0)))
      = [''c1''] \<and>
   checkpoints (snd (CommitIfAfter (the_sink app0) 29000000000 ''c1'' 30000000000 (snd_state st0)))
      = []"
proof -
  let ?r1 = "\<lparr>resp_Cursor = ''c1'', resp_Step = ''STEP_NEW'', resp_Block = Some blk100\<rparr>"
  let ?r2 = "\<lparr>resp_Cursor = ''c2'', resp_Step = ''STEP_NEW'', resp_Block = Some blk100\<rparr>"
  note w1 = commit_if_after_min_delay[where a = app0 and st = st0
      and ?t1.0 = "turn_at ''c1'' False 31000000000" and ?t2.0 = "turn_at ''c2'' False 32000000000"
      and ?r1.0 = ?r1 and ?r2.0 = ?r2 and ?b1.0 = blk100 and ?b2.0 = blk100
      and ?ms1.0 = "[msg_a]" and ?ms2.0 = "[msg_a]"
      and sk = "the_sink app0" and cursor = "''c1''" and t = 31000000000 and D = 30000000000
      and s = "snd_state st0"]
  note w2 = commit_if_after_min_delay[where a = app0 and st = st0
      and ?t1.0 = "turn_at ''c1'' False 31000000000" and ?t2.0 = "turn_at ''c2'' False 62000000000"
      and ?r1.0 = ?r1 and ?r2.0 = ?r2 and ?b1.0 = blk100 and ?b2.0 = blk100
      and ?ms1.0 = "[msg_a]" and ?ms2.0 = "[msg_a]"
      and sk = "the_sink app0" and cursor = "''c1''" and t = 29000000000 and D = 30000000000
      and s = "snd_state st0"]
  from w1 w2 show ?thesis
    by (simp add: eval_turn eval_app0 st0_def)
qed

end
